theory Spec2Isabelle
  imports Complex_Main "HOL-Library.Log_Nat"
begin

section \<open>JavaScript numbers\<close>

text \<open>
  A JavaScript \<^verbatim>\<open>number\<close> is NaN, an infinity or a finite double. A finite double is
  modelled by the real number it denotes, and every arithmetic operation rounds its exact
  result to the nearest double, ties to even, as IEEE 754 prescribes. The sign of zero is
  not modelled: \<open>Fin 0\<close> stands for both zeros.
\<close>

datatype number = NaN | NegInfinity | Fin real | PosInfinity

text \<open>\<^verbatim>\<open>!x\<close> is true for \<^verbatim>\<open>0\<close> and \<^verbatim>\<open>NaN\<close>; \<open>truthy x\<close> is \<^verbatim>\<open>!!x\<close>.\<close>

fun truthy :: "number \<Rightarrow> bool" where
  "truthy NaN = False"
| "truthy (Fin x) = (x \<noteq> 0)"
| "truthy NegInfinity = True"
| "truthy PosInfinity = True"

fun js_lt :: "number \<Rightarrow> number \<Rightarrow> bool" where
  "js_lt NaN b = False"
| "js_lt a NaN = False"
| "js_lt PosInfinity b = False"
| "js_lt a NegInfinity = False"
| "js_lt NegInfinity b = True"
| "js_lt (Fin x) PosInfinity = True"
| "js_lt (Fin x) (Fin y) = (x < y)"

definition js_gt :: "number \<Rightarrow> number \<Rightarrow> bool" where
  "js_gt a b = js_lt b a"

definition js_ge :: "number \<Rightarrow> number \<Rightarrow> bool" where
  "js_ge a b = (a \<noteq> NaN \<and> b \<noteq> NaN \<and> \<not> js_lt a b)"

definition Math_min :: "number \<Rightarrow> number \<Rightarrow> number" where
  "Math_min a b = (if a = NaN \<or> b = NaN then NaN else if js_lt b a then b else a)"

definition Math_max :: "number \<Rightarrow> number \<Rightarrow> number" where
  "Math_max a b = (if a = NaN \<or> b = NaN then NaN else if js_lt a b then b else a)"

fun js_neg :: "number \<Rightarrow> number" where
  "js_neg NaN = NaN"
| "js_neg NegInfinity = PosInfinity"
| "js_neg PosInfinity = NegInfinity"
| "js_neg (Fin x) = Fin (- x)"

text \<open>The infinity with the sign of a non-zero real, NaN for zero.\<close>

definition signedInfinity :: "real \<Rightarrow> number" where
  "signedInfinity x = (if x = 0 then NaN else if 0 < x then PosInfinity else NegInfinity)"

subsection \<open>Rounding to the nearest double\<close>

text \<open>
  \<open>binade x\<close> is the exponent \<open>e\<close> with \<open>2 ^ e \<le> \<bar>x\<bar> < 2 ^ (e + 1)\<close>, computed
  from the bit length of the integer part of \<open>\<bar>x\<bar>\<close> or of its reciprocal.
\<close>

definition binade :: "real \<Rightarrow> int" where
  "binade x =
     (if 1 \<le> \<bar>x\<bar> then bitlen \<lfloor>\<bar>x\<bar>\<rfloor> - 1
      else - bitlen (\<lceil>1 / \<bar>x\<bar>\<rceil> - 1))"

definition roundHalfEven :: "real \<Rightarrow> int" where
  "roundHalfEven r =
     (let f = \<lfloor>r\<rfloor> in
      if r - of_int f < 1 / 2 then f
      else if 1 / 2 < r - of_int f then f + 1
      else if even f then f else f + 1)"

text \<open>
  A double has 53 significant bits and an exponent of at least \<open>-1022\<close>, so the doubles
  around \<open>x\<close> are the multiples of \<open>2 ^ (max (binade x) (-1022) - 52)\<close>. The nearest
  multiple is the result, and a result of magnitude \<open>2 ^ 1024\<close> or more is an infinity.
\<close>

definition round64 :: "real \<Rightarrow> number" where
  "round64 x =
     (let q = 2 powi (max (binade x) (- 1022) - 52);
          y = of_int (roundHalfEven (x / q)) * q
      in if 2 ^ 1024 \<le> \<bar>y\<bar> then (if 0 < x then PosInfinity else NegInfinity)
         else Fin y)"

subsection \<open>Arithmetic\<close>

fun js_mul :: "number \<Rightarrow> number \<Rightarrow> number" where
  "js_mul NaN b = NaN"
| "js_mul a NaN = NaN"
| "js_mul (Fin x) (Fin y) = round64 (x * y)"
| "js_mul (Fin x) PosInfinity = signedInfinity x"
| "js_mul (Fin x) NegInfinity = signedInfinity (- x)"
| "js_mul PosInfinity (Fin y) = signedInfinity y"
| "js_mul NegInfinity (Fin y) = signedInfinity (- y)"
| "js_mul PosInfinity PosInfinity = PosInfinity"
| "js_mul NegInfinity NegInfinity = PosInfinity"
| "js_mul PosInfinity NegInfinity = NegInfinity"
| "js_mul NegInfinity PosInfinity = NegInfinity"

fun js_add :: "number \<Rightarrow> number \<Rightarrow> number" where
  "js_add NaN b = NaN"
| "js_add a NaN = NaN"
| "js_add (Fin x) (Fin y) = round64 (x + y)"
| "js_add PosInfinity NegInfinity = NaN"
| "js_add NegInfinity PosInfinity = NaN"
| "js_add PosInfinity b = PosInfinity"
| "js_add NegInfinity b = NegInfinity"
| "js_add (Fin x) b = b"

definition js_sub :: "number \<Rightarrow> number \<Rightarrow> number" where
  "js_sub a b = js_add a (js_neg b)"

text \<open>
  Division. A finite value divided by zero is an infinity (its sign taken from the
  dividend, the divisor being read as \<^verbatim>\<open>+0\<close>), and \<^verbatim>\<open>0 / 0\<close> is NaN.
\<close>

fun js_div :: "number \<Rightarrow> number \<Rightarrow> number" where
  "js_div NaN b = NaN"
| "js_div a NaN = NaN"
| "js_div (Fin x) (Fin y) = (if y = 0 then signedInfinity x else round64 (x / y))"
| "js_div (Fin x) PosInfinity = Fin 0"
| "js_div (Fin x) NegInfinity = Fin 0"
| "js_div PosInfinity (Fin y) = (if 0 \<le> y then PosInfinity else NegInfinity)"
| "js_div NegInfinity (Fin y) = (if 0 \<le> y then NegInfinity else PosInfinity)"
| "js_div PosInfinity b = NaN"
| "js_div NegInfinity b = NaN"

fun isFinite :: "number \<Rightarrow> bool" where
  "isFinite (Fin x) = True"
| "isFinite NaN = False"
| "isFinite NegInfinity = False"
| "isFinite PosInfinity = False"

section \<open>Strings\<close>

text \<open>
  A string is the list of its code units; the units up to 255 are representable. The
  case conversions belong to the runtime (see \<open>Runtime\<close> below).
\<close>

definition startsWith :: "string \<Rightarrow> string \<Rightarrow> bool" where
  "startsWith s t = (take (length t) s = t)"

text \<open>\<^verbatim>\<open>s.includes(t)\<close> on strings: \<open>t\<close> occurs in \<open>s\<close>.\<close>

fun str_includes :: "string \<Rightarrow> string \<Rightarrow> bool" where
  "str_includes [] t = (t = [])"
| "str_includes (c # cs) t = (startsWith (c # cs) t \<or> str_includes cs t)"

text \<open>\<^verbatim>\<open>s.replace(pat, rep)\<close> with a string pattern: the first occurrence only.\<close>

fun str_replace :: "string \<Rightarrow> string \<Rightarrow> string \<Rightarrow> string" where
  "str_replace [] pat rep = (if pat = [] then rep else [])"
| "str_replace (c # cs) pat rep =
     (if startsWith (c # cs) pat then rep @ drop (length pat) (c # cs)
      else c # str_replace cs pat rep)"

text \<open>\<^verbatim>\<open>s.split(':')[0]\<close>: the text before the first colon.\<close>

definition beforeColon :: "string \<Rightarrow> string" where
  "beforeColon s = takeWhile (\<lambda>c. c \<noteq> CHR '':'') s"

text \<open>White space and line terminators, as \<^verbatim>\<open>parseInt\<close> and \<^verbatim>\<open>Number\<close> strip them.\<close>

definition isWhiteSpace :: "char \<Rightarrow> bool" where
  "isWhiteSpace c = ((of_char c :: nat) \<in> {9, 10, 11, 12, 13, 32, 160})"

definition digitOf :: "char \<Rightarrow> nat option" where
  "digitOf c =
     (let n = (of_char c :: nat) in
      if 48 \<le> n \<and> n \<le> 57 then Some (n - 48)
      else if 97 \<le> n \<and> n \<le> 122 then Some (n - 87)
      else if 65 \<le> n \<and> n \<le> 90 then Some (n - 55)
      else None)"

definition isDigit :: "nat \<Rightarrow> char \<Rightarrow> bool" where
  "isDigit radix c = (case digitOf c of Some d \<Rightarrow> d < radix | None \<Rightarrow> False)"

definition digitsValue :: "nat \<Rightarrow> string \<Rightarrow> nat" where
  "digitsValue radix ds =
     foldl (\<lambda>acc c. acc * radix + (case digitOf c of Some d \<Rightarrow> d | None \<Rightarrow> 0)) 0 ds"

text \<open>
  \<^verbatim>\<open>parseInt(s)\<close> with no radix: leading white space, an optional sign, an optional
  \<^verbatim>\<open>0x\<close> prefix, then the longest run of digits; NaN when that run is empty.
\<close>

definition parseInt :: "string \<Rightarrow> number" where
  "parseInt s =
     (let s1 = dropWhile isWhiteSpace s;
          negative = startsWith s1 ''-'';
          s2 = (if startsWith s1 ''-'' \<or> startsWith s1 ''+'' then drop 1 s1 else s1);
          hex = (startsWith s2 ''0x'' \<or> startsWith s2 ''0X'');
          radix = (if hex then 16 else 10);
          s3 = (if hex then drop 2 s2 else s2);
          ds = takeWhile (isDigit radix) s3
      in if ds = [] then NaN
         else if negative then round64 (- real (digitsValue radix ds))
         else round64 (real (digitsValue radix ds)))"

subsection \<open>Strings read as numbers\<close>

definition trimWhiteSpace :: "string \<Rightarrow> string" where
  "trimWhiteSpace s = rev (dropWhile isWhiteSpace (rev (dropWhile isWhiteSpace s)))"

text \<open>A literal \<^verbatim>\<open>0x\<close>, \<^verbatim>\<open>0o\<close> or \<^verbatim>\<open>0b\<close> after its prefix: digits of the radix only.\<close>

definition radixLiteral :: "nat \<Rightarrow> string \<Rightarrow> number" where
  "radixLiteral radix ds =
     (if ds \<noteq> [] \<and> list_all (isDigit radix) ds then round64 (real (digitsValue radix ds))
      else NaN)"

text \<open>
  The exponent part of a decimal literal: nothing, or \<^verbatim>\<open>e\<close> with an optional sign and
  at least one digit. \<open>None\<close> when the text is neither.
\<close>

definition exponentPart :: "string \<Rightarrow> int option" where
  "exponentPart s =
     (if s = [] then Some 0
      else if startsWith s ''e'' \<or> startsWith s ''E'' then
        (let s1 = drop 1 s;
             negative = startsWith s1 ''-'';
             ds = (if startsWith s1 ''-'' \<or> startsWith s1 ''+'' then drop 1 s1 else s1)
         in if ds \<noteq> [] \<and> list_all (isDigit 10) ds
            then Some (if negative then - int (digitsValue 10 ds) else int (digitsValue 10 ds))
            else None)
      else None)"

text \<open>
  An unsigned decimal literal: digits, an optional point with optional digits, at least
  one digit in all, and an optional exponent. Its value is exact.
\<close>

definition unsignedDecimal :: "string \<Rightarrow> real option" where
  "unsignedDecimal s =
     (let whole = takeWhile (isDigit 10) s;
          s1 = dropWhile (isDigit 10) s;
          point = startsWith s1 ''.'';
          fraction = (if point then takeWhile (isDigit 10) (drop 1 s1) else []);
          s2 = (if point then dropWhile (isDigit 10) (drop 1 s1) else s1)
      in if whole = [] \<and> fraction = [] then None
         else (case exponentPart s2 of
                 None \<Rightarrow> None
               | Some k \<Rightarrow>
                   Some ((real (digitsValue 10 whole)
                          + real (digitsValue 10 fraction) / 10 ^ length fraction)
                         * 10 powi k)))"

text \<open>\<^verbatim>\<open>Number(s)\<close> for a string: the numeric value of the text, NaN when it has none.\<close>

definition stringToNumber :: "string \<Rightarrow> number" where
  "stringToNumber s =
     (let t = trimWhiteSpace s in
      if t = [] then Fin 0
      else if startsWith t ''0x'' \<or> startsWith t ''0X'' then radixLiteral 16 (drop 2 t)
      else if startsWith t ''0o'' \<or> startsWith t ''0O'' then radixLiteral 8 (drop 2 t)
      else if startsWith t ''0b'' \<or> startsWith t ''0B'' then radixLiteral 2 (drop 2 t)
      else (let negative = startsWith t ''-'';
                u = (if startsWith t ''-'' \<or> startsWith t ''+'' then drop 1 t else t)
            in if u = ''Infinity'' then (if negative then NegInfinity else PosInfinity)
               else (case unsignedDecimal u of
                       None \<Rightarrow> NaN
                     | Some v \<Rightarrow> round64 (if negative then - v else v))))"

text \<open>A \<^verbatim>\<open>Date\<close> is read through \<^verbatim>\<open>getHours()\<close> only (NaN for an invalid date).\<close>

datatype Date = Date (getHours: number)

section \<open>Untyped values\<close>

text \<open>
  \<^verbatim>\<open>thresholdValue\<close> is \<^verbatim>\<open>any\<close> in the rule (\<^verbatim>\<open>Mixed\<close> in the schema): a JSON value or
  \<^verbatim>\<open>undefined\<close>. An object is the list of its own properties, read by the first entry of
  a key.
\<close>

datatype jsval =
    JUndefined
  | JNull
  | JBool bool
  | JNum number
  | JStr string
  | JArr "jsval list"
  | JObj "(string \<times> jsval) list"

text \<open>
  A text is a template literal or a converted value. Its pieces are kept apart: literal
  text, a number printed by \<^verbatim>\<open>${n}\<close>, and a number printed by \<^verbatim>\<open>n.toFixed(d)\<close>.
\<close>

datatype part = Lit string | Num number | Fixed number nat

type_synonym message = "part list"

datatype error = TypeError

definition bindE :: "error + 'a \<Rightarrow> ('a \<Rightarrow> error + 'b) \<Rightarrow> error + 'b" where
  "bindE m f = (case m of Inl e \<Rightarrow> Inl e | Inr x \<Rightarrow> f x)"

text \<open>
  Conversion to a primitive throws a TypeError for an object with an own property
  \<^verbatim>\<open>toString\<close> (which is no function), and for an array that holds such an object.
\<close>

fun unprintable :: "jsval \<Rightarrow> bool" where
  "unprintable (JObj kvs) = (''toString'' \<in> set (map fst kvs))"
| "unprintable (JArr xs) = (\<exists>x \<in> set xs. unprintable x)"
| "unprintable v = False"

text \<open>
  \<^verbatim>\<open>String(v)\<close> for a value that converts. An array is its elements joined by commas, with
  nothing for \<^verbatim>\<open>null\<close> and \<^verbatim>\<open>undefined\<close>; \<open>joinElements\<close> is \<^verbatim>\<open>xs.join(sep)\<close>.
\<close>

fun stringify :: "jsval \<Rightarrow> message"
  and joinElements :: "message \<Rightarrow> jsval list \<Rightarrow> message" where
  "stringify JUndefined = [Lit ''undefined'']"
| "stringify JNull = [Lit ''null'']"
| "stringify (JBool b) = [Lit (if b then ''true'' else ''false'')]"
| "stringify (JNum n) = [Num n]"
| "stringify (JStr s) = [Lit s]"
| "stringify (JArr xs) = joinElements [Lit '',''] xs"
| "stringify (JObj kvs) = [Lit ''[object Object]'']"
| "joinElements sep [] = []"
| "joinElements sep [x] = (if x = JUndefined \<or> x = JNull then [] else stringify x)"
| "joinElements sep (x # y # ys) =
     (if x = JUndefined \<or> x = JNull then [] else stringify x) @ sep @ joinElements sep (y # ys)"

text \<open>
  \<^verbatim>\<open>Number(xs)\<close> for an array that converts: the number of its text. The text of two or
  more elements holds a comma and is no number; the text of one element is the text of
  that element, and a number printed and read again is the same number.
\<close>

fun arrayToNumber :: "jsval list \<Rightarrow> number" where
  "arrayToNumber [] = Fin 0"
| "arrayToNumber [JUndefined] = Fin 0"
| "arrayToNumber [JNull] = Fin 0"
| "arrayToNumber [JBool b] = NaN"
| "arrayToNumber [JNum n] = n"
| "arrayToNumber [JStr s] = stringToNumber s"
| "arrayToNumber [JArr ys] = arrayToNumber ys"
| "arrayToNumber [JObj kvs] = NaN"
| "arrayToNumber (x # y # zs) = NaN"

text \<open>The conversion of a value in arithmetic and in a comparison with a number.\<close>

definition toNumber :: "jsval \<Rightarrow> error + number" where
  "toNumber v =
     (case v of
        JUndefined \<Rightarrow> Inr NaN
      | JNull \<Rightarrow> Inr (Fin 0)
      | JBool b \<Rightarrow> Inr (Fin (if b then 1 else 0))
      | JNum n \<Rightarrow> Inr n
      | JStr s \<Rightarrow> Inr (stringToNumber s)
      | JArr xs \<Rightarrow> if unprintable v then Inl TypeError else Inr (arrayToNumber xs)
      | JObj kvs \<Rightarrow> if unprintable v then Inl TypeError else Inr NaN)"

text \<open>\<^verbatim>\<open>String(v)\<close> in a template literal.\<close>

definition toText :: "jsval \<Rightarrow> error + message" where
  "toText v = (if unprintable v then Inl TypeError else Inr (stringify v))"

text \<open>
  \<^verbatim>\<open>v.key\<close> for the property names the engine reads from a payload (\<^verbatim>\<open>standard\<close>,
  \<^verbatim>\<open>emergency\<close>, \<^verbatim>\<open>tier1_limit\<close>, \<^verbatim>\<open>tier1_percent\<close>, \<^verbatim>\<open>tier2_percent\<close>, \<^verbatim>\<open>start\<close>,
  \<^verbatim>\<open>end\<close>, \<^verbatim>\<open>restrictionHours\<close>), none of which a prototype defines: a TypeError on
  \<^verbatim>\<open>null\<close> and \<^verbatim>\<open>undefined\<close>, the own property of an object, \<^verbatim>\<open>undefined\<close> otherwise.
\<close>

definition getField :: "jsval \<Rightarrow> string \<Rightarrow> error + jsval" where
  "getField v key =
     (case v of
        JUndefined \<Rightarrow> Inl TypeError
      | JNull \<Rightarrow> Inl TypeError
      | JObj kvs \<Rightarrow> (case map_of kvs key of Some x \<Rightarrow> Inr x | None \<Rightarrow> Inr JUndefined)
      | _ \<Rightarrow> Inr JUndefined)"

section \<open>The runtime\<close>

text \<open>
  What the engine takes from the JavaScript runtime and this theory leaves open: the two
  case conversions of strings, and \<open>inherited st cat\<close>, the truthy value that
  \<^verbatim>\<open>recommendations[st]?.[cat]\<close> finds on the prototype chain when the table has no entry
  of its own for the two keys (\<open>None\<close> when it finds nothing or a falsy value). Every
  function below that depends on them takes the runtime as its first argument.
\<close>

record Runtime =
  toUpperCase :: "string \<Rightarrow> string"
  toLowerCase :: "string \<Rightarrow> string"
  inherited :: "string \<Rightarrow> string \<Rightarrow> message option"

section \<open>Data model\<close>

subsection \<open>Rules (\<^verbatim>\<open>IEnforcementRule\<close>)\<close>

datatype severity = BLOCK_ACTION | WARN_BLOCK | WARN_CONTINUE | INFO_ONLY | WARNING_ONLY

record LegalBasis =
  statute :: "string option"
  consequences :: "string list option"

text \<open>
  The engine takes its rules from the store and reads them untyped. The record has the
  fields of \<^verbatim>\<open>IEnforcementRule\<close> that the engine reads, with the types declared there:
  the severity is one of five tags, category and logic type are strings, the threshold
  is any value. \<open>ruleId\<close> is \<^verbatim>\<open>_id.toString()\<close>.
\<close>

record EnforcementRule =
  ruleId :: string
  stateCode :: string
  category :: string
  description :: string
  isActive :: bool
  logicType :: string
  thresholdValue :: jsval
  severity :: severity
  errorMessage :: string
  legalBasis :: "LegalBasis option"

subsection \<open>Action input (\<^verbatim>\<open>ContractValidationInput\<close>)\<close>

datatype claimType = RESIDENTIAL | COMMERCIAL | PERSONAL_LINES

datatype feeType = PERCENTAGE | HOURLY | FLAT_FEE | CONTINGENCY

datatype actionType = CONTRACT | SOLICITATION | NEGOTIATION | REPRESENTATION

fun feeTypeName :: "feeType \<Rightarrow> string" where
  "feeTypeName PERCENTAGE = ''PERCENTAGE''"
| "feeTypeName HOURLY = ''HOURLY''"
| "feeTypeName FLAT_FEE = ''FLAT_FEE''"
| "feeTypeName CONTINGENCY = ''CONTINGENCY''"

fun actionTypeName :: "actionType \<Rightarrow> string" where
  "actionTypeName CONTRACT = ''CONTRACT''"
| "actionTypeName SOLICITATION = ''SOLICITATION''"
| "actionTypeName NEGOTIATION = ''NEGOTIATION''"
| "actionTypeName REPRESENTATION = ''REPRESENTATION''"

text \<open>Every field but the state code is optional: \<open>None\<close> is \<^verbatim>\<open>undefined\<close>.\<close>

record ContractValidationInput =
  inputStateCode :: string
  claimType :: "claimType option"
  feeType :: "feeType option"
  feePercentage :: "number option"
  feeAmount :: "number option"
  claimAmount :: "number option"
  isEmergency :: "bool option"
  isDeclaredDisaster :: "bool option"
  contractLanguage :: "string option"
  actionType :: "actionType option"
  solicitationTime :: "Date option"

subsection \<open>Results\<close>

record RuleResult =
  violated :: bool
  recommendedAction :: "message option"

record ComplianceViolation =
  vRuleId :: string
  vStateCode :: string
  vCategory :: string
  vSeverity :: severity
  vErrorMessage :: string
  vLegalBasis :: "string option"
  vConsequences :: "string list option"
  vRecommendedAction :: "message option"

record ComplianceWarning =
  wRuleId :: string
  wStateCode :: string
  wCategory :: string
  wMessage :: string
  wRecommendedAction :: "message option"

record ComplianceValidationResult =
  isValid :: bool
  violations :: "ComplianceViolation list"
  warnings :: "ComplianceWarning list"
  blockedActions :: "string list"

text \<open>
  \<^verbatim>\<open>maxPercentage\<close> is declared a number, and the \<^verbatim>\<open>MAX_PERCENTAGE\<close> and
  \<^verbatim>\<open>DYNAMIC_CAP\<close> branches put the payload there as it is.
\<close>

record MaximumFee =
  maxPercentage :: jsval
  maxAmount :: number
  feeNotes :: "message option"

section \<open>Logic handlers\<close>

definition notViolated :: RuleResult where
  "notViolated = \<lparr>violated = False, recommendedAction = None\<rparr>"

text \<open>The own entries of the table in \<^verbatim>\<open>getRecommendedAction\<close>.\<close>

definition recommendations :: "string \<Rightarrow> string \<Rightarrow> string option" where
  "recommendations st cat =
     (if st = ''AL'' then
        (if cat = ''LICENSE_RESTRICTION''
         then Some ''Refer client to licensed Alabama attorney. Public adjusting is illegal (UPL).''
         else None)
      else if st = ''AR'' then
        (if cat = ''LICENSE_RESTRICTION''
         then Some ''Refer client to licensed Arkansas attorney. Public adjusting is illegal.''
         else None)
      else if st = ''KS'' then
        (if cat = ''LICENSE_RESTRICTION''
         then Some ''Kansas only permits Commercial PA. For residential claims, refer to attorney.''
         else None)
      else if st = ''LA'' then
        (if cat = ''FEE_STRUCTURE''
         then Some ''Convert to hourly or flat fee billing. Percentage fees are illegal in Louisiana.''
         else if cat = ''UPL_PREVENTION''
         then Some ''Do not provide coverage opinions. Stick to scope and pricing only.''
         else None)
      else None)"

text \<open>
  \<^verbatim>\<open>recommendations[stateCode]?.[category] || '...'\<close>: the own entry, else what the
  prototype chain gives, else the fallback.
\<close>

definition getRecommendedAction :: "Runtime \<Rightarrow> string \<Rightarrow> string \<Rightarrow> message" where
  "getRecommendedAction rt st cat =
     (case recommendations st cat of
        Some advice \<Rightarrow> [Lit advice]
      | None \<Rightarrow>
          (case inherited rt st cat of
             Some found \<Rightarrow> found
           | None \<Rightarrow> [Lit ''Contact state Department of Insurance for guidance.'']))"

text \<open>
  The callback of \<^verbatim>\<open>keywords.some\<close> in \<^verbatim>\<open>evaluateForbiddenKeyword\<close>: the \<^verbatim>\<open>switch\<close>
  compares by \<^verbatim>\<open>===\<close>, so only a string matches a case.
\<close>

definition keywordMatches :: "ContractValidationInput \<Rightarrow> jsval \<Rightarrow> bool" where
  "keywordMatches input keyword =
     (case keyword of
        JStr k \<Rightarrow>
          (if k \<in> {''CONTRACT'', ''SOLICITATION'', ''NEGOTIATION'', ''REPRESENTATION''}
           then map_option actionTypeName (actionType input) = Some k
           else if k \<in> {''RESIDENTIAL'', ''HOMEOWNER'', ''PERSONAL_LINES''}
           then claimType input = Some RESIDENTIAL \<or> claimType input = Some PERSONAL_LINES
           else if k \<in> {''PERCENTAGE'', ''CONTINGENCY''}
           then feeType input = Some PERCENTAGE \<or> feeType input = Some CONTINGENCY
           else False)
      | _ \<Rightarrow> False)"

text \<open>Only an array has a method \<^verbatim>\<open>some\<close>; on any other payload the call throws.\<close>

definition evaluateForbiddenKeyword ::
  "Runtime \<Rightarrow> EnforcementRule \<Rightarrow> ContractValidationInput \<Rightarrow> error + RuleResult" where
  "evaluateForbiddenKeyword rt rule input =
     (case thresholdValue rule of
        JArr keywords \<Rightarrow>
          Inr \<lparr>violated = list_ex (keywordMatches input) keywords,
               recommendedAction =
                 Some (getRecommendedAction rt (stateCode rule) (category rule))\<rparr>
      | _ \<Rightarrow> Inl TypeError)"

definition evaluateForbiddenAction ::
  "EnforcementRule \<Rightarrow> ContractValidationInput \<Rightarrow> error + RuleResult" where
  "evaluateForbiddenAction rule input =
     Inr \<lparr>violated = True,
          recommendedAction =
            Some [Lit ''Refer client to licensed attorney in '', Lit (stateCode rule),
                  Lit ''. Public adjusting is illegal in this state.'']\<rparr>"

text \<open>
  \<^verbatim>\<open>forbiddenTypes.includes(feeType || '')\<close>: an absent fee type is looked up as the
  empty string. An array has the element test, a string the substring test, and any
  other payload has no method \<^verbatim>\<open>includes\<close>.
\<close>

definition evaluateForbiddenFeeType ::
  "EnforcementRule \<Rightarrow> ContractValidationInput \<Rightarrow> error + RuleResult" where
  "evaluateForbiddenFeeType rule input =
     (let wanted = (case feeType input of Some t \<Rightarrow> feeTypeName t | None \<Rightarrow> [])
      in case thresholdValue rule of
           JArr forbiddenTypes \<Rightarrow>
             (let v = (JStr wanted \<in> set forbiddenTypes)
              in Inr \<lparr>violated = v,
                      recommendedAction =
                        (if v then Some [Lit ''Use HOURLY or FLAT_FEE billing structure only.'']
                         else None)\<rparr>)
         | JStr words \<Rightarrow>
             (let v = str_includes words wanted
              in Inr \<lparr>violated = v,
                      recommendedAction =
                        (if v then Some [Lit ''Use HOURLY or FLAT_FEE billing structure only.'']
                         else None)\<rparr>)
         | _ \<Rightarrow> Inl TypeError)"

definition evaluateMaxPercentage ::
  "EnforcementRule \<Rightarrow> ContractValidationInput \<Rightarrow> error + RuleResult" where
  "evaluateMaxPercentage rule input =
     (case feePercentage input of
        None \<Rightarrow> Inr notViolated
      | Some fee \<Rightarrow>
          if \<not> truthy fee then Inr notViolated
          else bindE (toNumber (thresholdValue rule)) (\<lambda>maxPercent.
                 let v = js_gt fee maxPercent
                 in Inr \<lparr>violated = v,
                         recommendedAction =
                           (if v then
                              Some [Lit ''Reduce fee to '', Fixed (js_mul maxPercent (Fin 100)) 1,
                                    Lit ''% or less to comply with '', Lit (stateCode rule),
                                    Lit '' law.'']
                            else None)\<rparr>))"

text \<open>An optional boolean in a condition: \<^verbatim>\<open>undefined\<close> counts as false.\<close>

definition flag :: "bool option \<Rightarrow> bool" where
  "flag b = (b = Some True)"

definition evaluateDynamicCap ::
  "EnforcementRule \<Rightarrow> ContractValidationInput \<Rightarrow> error + RuleResult" where
  "evaluateDynamicCap rule input =
     (case feePercentage input of
        None \<Rightarrow> Inr notViolated
      | Some fee \<Rightarrow>
          if \<not> truthy fee then Inr notViolated
          else bindE (getField (thresholdValue rule)
                        (if flag (isEmergency input) \<or> flag (isDeclaredDisaster input)
                         then ''emergency'' else ''standard'')) (\<lambda>cap.
               bindE (toNumber cap) (\<lambda>applicableCap.
                 let v = js_gt fee applicableCap
                 in Inr \<lparr>violated = v,
                         recommendedAction =
                           (if v then
                              Some [Lit ''Reduce fee to '', Fixed (js_mul applicableCap (Fin 100)) 1,
                                    Lit ''% ('',
                                    Lit (if flag (isEmergency input) then ''emergency'' else ''standard''),
                                    Lit '' cap for '', Lit (stateCode rule), Lit '').'']
                            else None)\<rparr>)))"

definition evaluateSlidingScale ::
  "EnforcementRule \<Rightarrow> ContractValidationInput \<Rightarrow> error + RuleResult" where
  "evaluateSlidingScale rule input =
     (case (feeAmount input, claimAmount input) of
        (Some fee, Some claim) \<Rightarrow>
          if \<not> truthy fee \<or> \<not> truthy claim then Inr notViolated
          else bindE (getField (thresholdValue rule) ''tier1_limit'') (\<lambda>limit.
               bindE (toNumber limit) (\<lambda>tier1_limit.
               bindE (getField (thresholdValue rule) ''tier1_percent'') (\<lambda>percent1.
               bindE (toNumber percent1) (\<lambda>tier1_percent.
               bindE (getField (thresholdValue rule) ''tier2_percent'') (\<lambda>percent2.
               bindE (toNumber percent2) (\<lambda>tier2_percent.
                 let tier1Amount = js_mul (Math_min claim tier1_limit) tier1_percent;
                     tier2Amount = js_mul (Math_max (Fin 0) (js_sub claim tier1_limit)) tier2_percent;
                     maxAllowedFee = js_add tier1Amount tier2Amount;
                     v = js_gt fee maxAllowedFee
                 in Inr \<lparr>violated = v,
                         recommendedAction =
                           (if v then
                              Some ([Lit ''Maximum fee allowed: $'', Fixed maxAllowedFee 2,
                                     Lit '' ('', Num (js_mul tier1_percent (Fin 100)),
                                     Lit ''% on first $''] @ stringify limit @
                                    [Lit '', '', Num (js_mul tier2_percent (Fin 100)),
                                     Lit ''% on excess).''])
                            else None)\<rparr>))))))
      | _ \<Rightarrow> Inr notViolated)"

text \<open>Only a string has a method \<^verbatim>\<open>split\<close>.\<close>

definition evaluateTimeWindow ::
  "EnforcementRule \<Rightarrow> ContractValidationInput \<Rightarrow> error + RuleResult" where
  "evaluateTimeWindow rule input =
     (case solicitationTime input of
        None \<Rightarrow> Inr notViolated
      | Some time \<Rightarrow>
          if actionType input \<noteq> Some SOLICITATION then Inr notViolated
          else bindE (getField (thresholdValue rule) ''start'') (\<lambda>windowStart.
               bindE (getField (thresholdValue rule) ''end'') (\<lambda>windowEnd.
                 case (windowStart, windowEnd) of
                   (JStr start, JStr end') \<Rightarrow>
                     (let hour = getHours time;
                          startHour = parseInt (beforeColon start);
                          endHour = parseInt (beforeColon end');
                          v = (js_lt hour startHour \<or> js_ge hour endHour)
                      in Inr \<lparr>violated = v,
                              recommendedAction =
                                (if v then
                                   Some [Lit ''Solicitation is only permitted between '', Lit start,
                                         Lit '' and '', Lit end', Lit '' in '', Lit (stateCode rule),
                                         Lit ''.'']
                                 else None)\<rparr>)
                 | _ \<Rightarrow> Inl TypeError)))"

definition evaluateTimeBasedRestriction ::
  "EnforcementRule \<Rightarrow> ContractValidationInput \<Rightarrow> error + RuleResult" where
  "evaluateTimeBasedRestriction rule input =
     (if \<not> flag (isDeclaredDisaster input) \<or> actionType input \<noteq> Some SOLICITATION
      then Inr notViolated
      else bindE (getField (thresholdValue rule) ''restrictionHours'') (\<lambda>restrictionHours.
           bindE (toText restrictionHours) (\<lambda>hours.
             Inr \<lparr>violated = True,
                  recommendedAction =
                    Some ([Lit ''Wait ''] @ hours @
                          [Lit '' hours after disaster declaration before soliciting in '',
                           Lit (stateCode rule), Lit ''.''])\<rparr>)))"

text \<open>
  The callback of \<^verbatim>\<open>requiredLanguages.some\<close>, run from the first element to the first
  match: an element that is no string has no method \<^verbatim>\<open>toLowerCase\<close>.
\<close>

fun someLanguage :: "Runtime \<Rightarrow> string \<Rightarrow> jsval list \<Rightarrow> error + bool" where
  "someLanguage rt language [] = Inr False"
| "someLanguage rt language (JStr lang # rest) =
     (if str_includes (toLowerCase rt language)
           (str_replace (toLowerCase rt lang) ''_REQUIRED'' [])
      then Inr True
      else someLanguage rt language rest)"
| "someLanguage rt language (other # rest) = Inl TypeError"

text \<open>\<^verbatim>\<open>xs.join(sep)\<close> in a template literal.\<close>

definition joinText :: "string \<Rightarrow> jsval list \<Rightarrow> error + message" where
  "joinText sep xs =
     (if \<exists>x \<in> set xs. unprintable x then Inl TypeError else Inr (joinElements [Lit sep] xs))"

definition evaluateLanguageRequirement ::
  "Runtime \<Rightarrow> EnforcementRule \<Rightarrow> ContractValidationInput \<Rightarrow> error + RuleResult" where
  "evaluateLanguageRequirement rt rule input =
     (case thresholdValue rule of
        JArr requiredLanguages \<Rightarrow>
          (if contractLanguage input = None \<or> contractLanguage input = Some []
           then bindE (joinText '' and '' requiredLanguages) (\<lambda>languages.
                  Inr \<lparr>violated = True,
                       recommendedAction =
                         Some ([Lit ''Contract must be provided in ''] @ languages @
                               [Lit '' for '', Lit (stateCode rule), Lit ''.''])\<rparr>)
           else bindE (someLanguage rt
                         (case contractLanguage input of Some l \<Rightarrow> l | None \<Rightarrow> [])
                         requiredLanguages) (\<lambda>found.
                  if found then Inr \<lparr>violated = False, recommendedAction = None\<rparr>
                  else bindE (joinText '' and '' requiredLanguages) (\<lambda>languages.
                         Inr \<lparr>violated = True,
                              recommendedAction =
                                Some ([Lit ''Provide contract in ''] @ languages @
                                      [Lit '' for '', Lit (stateCode rule), Lit ''.''])\<rparr>)))
      | _ \<Rightarrow> Inl TypeError)"

definition evaluateRequiredDisclosure ::
  "EnforcementRule \<Rightarrow> ContractValidationInput \<Rightarrow> error + RuleResult" where
  "evaluateRequiredDisclosure rule input =
     bindE (toText (thresholdValue rule)) (\<lambda>disclosure.
       Inr \<lparr>violated = False,
            recommendedAction = Some ([Lit ''Ensure contract includes: ''] @ disclosure)\<rparr>)"

definition evaluateDynamicRescission ::
  "EnforcementRule \<Rightarrow> ContractValidationInput \<Rightarrow> error + RuleResult" where
  "evaluateDynamicRescission rule input =
     bindE (getField (thresholdValue rule)
              (if flag (isDeclaredDisaster input) then ''emergency'' else ''standard''))
       (\<lambda>applicablePeriod.
     bindE (toText applicablePeriod) (\<lambda>period.
       Inr \<lparr>violated = False,
            recommendedAction =
              Some ([Lit ''Include ''] @ period @
                    [Lit ''-day cancellation period in contract for '',
                     Lit (stateCode rule), Lit ''.''])\<rparr>))"

section \<open>Rule evaluator\<close>

text \<open>The logic types that \<^verbatim>\<open>evaluateRule\<close> has a \<^verbatim>\<open>case\<close> for.\<close>

definition recognizedLogicTypes :: "string list" where
  "recognizedLogicTypes =
     [''FORBIDDEN_KEYWORD'', ''FORBIDDEN_ACTION'', ''FORBIDDEN_FEE_TYPE'', ''MAX_PERCENTAGE'',
      ''DYNAMIC_CAP'', ''SLIDING_SCALE'', ''TIME_WINDOW'', ''TIME_BASED_RESTRICTION'',
      ''LANGUAGE_REQUIREMENT'', ''REQUIRED_DISCLOSURE'', ''DYNAMIC_RESCISSION'']"

definition evaluateRule ::
  "Runtime \<Rightarrow> EnforcementRule \<Rightarrow> ContractValidationInput \<Rightarrow> error + RuleResult" where
  "evaluateRule rt rule input =
     (if logicType rule = ''FORBIDDEN_KEYWORD'' then evaluateForbiddenKeyword rt rule input
      else if logicType rule = ''FORBIDDEN_ACTION'' then evaluateForbiddenAction rule input
      else if logicType rule = ''FORBIDDEN_FEE_TYPE'' then evaluateForbiddenFeeType rule input
      else if logicType rule = ''MAX_PERCENTAGE'' then evaluateMaxPercentage rule input
      else if logicType rule = ''DYNAMIC_CAP'' then evaluateDynamicCap rule input
      else if logicType rule = ''SLIDING_SCALE'' then evaluateSlidingScale rule input
      else if logicType rule = ''TIME_WINDOW'' then evaluateTimeWindow rule input
      else if logicType rule = ''TIME_BASED_RESTRICTION'' then evaluateTimeBasedRestriction rule input
      else if logicType rule = ''LANGUAGE_REQUIREMENT'' then evaluateLanguageRequirement rt rule input
      else if logicType rule = ''REQUIRED_DISCLOSURE'' then evaluateRequiredDisclosure rule input
      else if logicType rule = ''DYNAMIC_RESCISSION'' then evaluateDynamicRescission rule input
      else Inr notViolated)"

section \<open>Validation orchestrator\<close>

text \<open>
  The catalog is the collection behind the store, in its iteration order.
  \<^verbatim>\<open>find\<close> keeps the active rules of the state or of \<^verbatim>\<open>DEFAULT_GREEN\<close>.
\<close>

definition findRules :: "Runtime \<Rightarrow> EnforcementRule list \<Rightarrow> string \<Rightarrow> EnforcementRule list" where
  "findRules rt catalog code =
     filter (\<lambda>r. (stateCode r = toUpperCase rt code \<or> stateCode r = ''DEFAULT_GREEN'') \<and> isActive r)
       catalog"

definition violationOf :: "EnforcementRule \<Rightarrow> RuleResult \<Rightarrow> ComplianceViolation" where
  "violationOf rule result =
     \<lparr>vRuleId = ruleId rule,
      vStateCode = stateCode rule,
      vCategory = category rule,
      vSeverity = severity rule,
      vErrorMessage = errorMessage rule,
      vLegalBasis = Option.bind (legalBasis rule) statute,
      vConsequences = Option.bind (legalBasis rule) consequences,
      vRecommendedAction = recommendedAction result\<rparr>"

definition warningOf :: "EnforcementRule \<Rightarrow> RuleResult \<Rightarrow> ComplianceWarning" where
  "warningOf rule result =
     \<lparr>wRuleId = ruleId rule,
      wStateCode = stateCode rule,
      wCategory = category rule,
      wMessage = errorMessage rule,
      wRecommendedAction = recommendedAction result\<rparr>"

text \<open>The three arrays the loop pushes to: violations, warnings, blocked actions.\<close>

type_synonym lists = "ComplianceViolation list \<times> ComplianceWarning list \<times> string list"

text \<open>The body of the loop once the rule has been evaluated.\<close>

fun collect :: "EnforcementRule \<Rightarrow> RuleResult \<Rightarrow> lists \<Rightarrow> lists" where
  "collect rule result (vs, ws, bs) =
     (if violated result then
        (if severity rule = BLOCK_ACTION \<or> severity rule = WARN_BLOCK then
           (vs @ [violationOf rule result], ws,
            if severity rule = BLOCK_ACTION then bs @ [category rule] else bs)
         else if severity rule = WARN_CONTINUE \<or> severity rule = INFO_ONLY then
           (vs, ws @ [warningOf rule result], bs)
         else (vs, ws, bs))
      else (vs, ws, bs))"

definition processRule ::
  "Runtime \<Rightarrow> EnforcementRule \<Rightarrow> ContractValidationInput \<Rightarrow> lists \<Rightarrow> error + lists" where
  "processRule rt rule input acc =
     (case evaluateRule rt rule input of
        Inl e \<Rightarrow> Inl e
      | Inr result \<Rightarrow> Inr (collect rule result acc))"

fun processRules ::
  "Runtime \<Rightarrow> EnforcementRule list \<Rightarrow> ContractValidationInput \<Rightarrow> lists \<Rightarrow> error + lists" where
  "processRules rt [] input acc = Inr acc"
| "processRules rt (rule # rules) input acc =
     (case processRule rt rule input acc of
        Inl e \<Rightarrow> Inl e
      | Inr acc' \<Rightarrow> processRules rt rules input acc')"

text \<open>An exception of a handler leaves \<^verbatim>\<open>validateContract\<close> without a verdict.\<close>

definition validateContract ::
  "Runtime \<Rightarrow> EnforcementRule list \<Rightarrow> ContractValidationInput
     \<Rightarrow> error + ComplianceValidationResult" where
  "validateContract rt catalog input =
     (case processRules rt (findRules rt catalog (inputStateCode input)) input ([], [], []) of
        Inl e \<Rightarrow> Inl e
      | Inr (vs, ws, bs) \<Rightarrow>
          Inr \<lparr>isValid = (length vs = 0), violations = vs, warnings = ws, blockedActions = bs\<rparr>)"

section \<open>Fee-cap query\<close>

definition findFeeRule :: "Runtime \<Rightarrow> EnforcementRule list \<Rightarrow> string \<Rightarrow> EnforcementRule option" where
  "findFeeRule rt catalog code =
     find (\<lambda>r. stateCode r = toUpperCase rt code \<and> category r = ''FEE_CAP'' \<and> isActive r) catalog"

definition unregulatedNotes :: message where
  "unregulatedNotes = [Lit ''Standard reasonableness cap (no statutory limit)'']"

text \<open>
  The last \<^verbatim>\<open>return\<close> of \<^verbatim>\<open>getMaximumFee\<close>: the percentage as it was found, and the
  amount \<^verbatim>\<open>claimAmount * maxPercentage\<close>.
\<close>

definition flatFee :: "EnforcementRule \<Rightarrow> number \<Rightarrow> jsval \<Rightarrow> error + MaximumFee" where
  "flatFee feeRule claim maxPercent =
     bindE (toNumber maxPercent) (\<lambda>percent.
       Inr \<lparr>maxPercentage = maxPercent,
            maxAmount = js_mul claim percent,
            feeNotes = Some [Lit (description feeRule)]\<rparr>)"

text \<open>The literal \<^verbatim>\<open>0.33\<close> is the double nearest to it.\<close>

definition getMaximumFee ::
  "Runtime \<Rightarrow> EnforcementRule list \<Rightarrow> string \<Rightarrow> number \<Rightarrow> bool \<Rightarrow> error + MaximumFee" where
  "getMaximumFee rt catalog code claim emergencyFlag =
     (case findFeeRule rt catalog code of
        None \<Rightarrow>
          Inr \<lparr>maxPercentage = JNum (round64 0.33),
               maxAmount = js_mul claim (round64 0.33),
               feeNotes = Some unregulatedNotes\<rparr>
      | Some feeRule \<Rightarrow>
          if logicType feeRule = ''MAX_PERCENTAGE'' then
            flatFee feeRule claim (thresholdValue feeRule)
          else if logicType feeRule = ''DYNAMIC_CAP'' then
            bindE (getField (thresholdValue feeRule)
                     (if emergencyFlag then ''emergency'' else ''standard''))
              (flatFee feeRule claim)
          else if logicType feeRule = ''SLIDING_SCALE'' then
            bindE (getField (thresholdValue feeRule) ''tier1_limit'') (\<lambda>limit.
            bindE (toNumber limit) (\<lambda>tier1_limit.
            bindE (getField (thresholdValue feeRule) ''tier1_percent'') (\<lambda>percent1.
            bindE (toNumber percent1) (\<lambda>tier1_percent.
            bindE (getField (thresholdValue feeRule) ''tier2_percent'') (\<lambda>percent2.
            bindE (toNumber percent2) (\<lambda>tier2_percent.
              let tier1 = js_mul (Math_min claim tier1_limit) tier1_percent;
                  tier2 = js_mul (Math_max (Fin 0) (js_sub claim tier1_limit)) tier2_percent
              in Inr \<lparr>maxPercentage = JNum (js_div (js_add tier1 tier2) claim),
                      maxAmount = js_add tier1 tier2,
                      feeNotes =
                        Some ([Lit ''Sliding scale: '', Num (js_mul tier1_percent (Fin 100)),
                               Lit ''% up to $''] @ stringify limit @
                              [Lit '', '', Num (js_mul tier2_percent (Fin 100)),
                               Lit ''% above''])\<rparr>))))))
          else flatFee feeRule claim (JNum (round64 0.33)))"

section \<open>Specification-side definitions\<close>

text \<open>
  The tiered maximum as the specification words it,
  \<^verbatim>\<open>min(claimAmount,tier1Limit)*tier1Percent + max(0,claimAmount-tier1Limit)*tier2Percent\<close>,
  once in the arithmetic of doubles and once in exact arithmetic.
\<close>

definition tieredMaximum :: "number \<Rightarrow> number \<Rightarrow> number \<Rightarrow> number \<Rightarrow> number" where
  "tieredMaximum claim tier1Limit tier1Percent tier2Percent =
     js_add (js_mul (Math_min claim tier1Limit) tier1Percent)
            (js_mul (Math_max (Fin 0) (js_sub claim tier1Limit)) tier2Percent)"

definition exactTieredMaximum :: "real \<Rightarrow> real \<Rightarrow> real \<Rightarrow> real \<Rightarrow> real" where
  "exactTieredMaximum claim tier1Limit tier1Percent tier2Percent =
     min claim tier1Limit * tier1Percent + max 0 (claim - tier1Limit) * tier2Percent"

text \<open>
  The aggregation as the specification words it, over the applicable rules in catalog
  order: a rule has fired when its evaluation returns \<open>violated\<close>; a fired rule of
  severity \<^verbatim>\<open>BLOCK_ACTION\<close> or \<^verbatim>\<open>WARN_BLOCK\<close> gives a violation, one of severity
  \<^verbatim>\<open>BLOCK_ACTION\<close> its category as a blocked action, one of severity \<^verbatim>\<open>WARN_CONTINUE\<close>
  or \<^verbatim>\<open>INFO_ONLY\<close> a warning. The entries are written out field by field.
\<close>

definition fired :: "error + RuleResult \<Rightarrow> RuleResult option" where
  "fired outcome =
     (case outcome of
        Inr result \<Rightarrow> if violated result then Some result else None
      | Inl e \<Rightarrow> None)"

definition specViolations ::
  "Runtime \<Rightarrow> EnforcementRule list \<Rightarrow> ContractValidationInput \<Rightarrow> ComplianceViolation list" where
  "specViolations rt rules input =
     concat (map (\<lambda>r.
       case fired (evaluateRule rt r input) of
         Some result \<Rightarrow>
           if severity r \<in> {BLOCK_ACTION, WARN_BLOCK}
           then [\<lparr>vRuleId = ruleId r,
                  vStateCode = stateCode r,
                  vCategory = category r,
                  vSeverity = severity r,
                  vErrorMessage = errorMessage r,
                  vLegalBasis = (case legalBasis r of Some basis \<Rightarrow> statute basis | None \<Rightarrow> None),
                  vConsequences =
                    (case legalBasis r of Some basis \<Rightarrow> consequences basis | None \<Rightarrow> None),
                  vRecommendedAction = recommendedAction result\<rparr>]
           else []
       | None \<Rightarrow> []) rules)"

definition specWarnings ::
  "Runtime \<Rightarrow> EnforcementRule list \<Rightarrow> ContractValidationInput \<Rightarrow> ComplianceWarning list" where
  "specWarnings rt rules input =
     concat (map (\<lambda>r.
       case fired (evaluateRule rt r input) of
         Some result \<Rightarrow>
           if severity r \<in> {WARN_CONTINUE, INFO_ONLY}
           then [\<lparr>wRuleId = ruleId r,
                  wStateCode = stateCode r,
                  wCategory = category r,
                  wMessage = errorMessage r,
                  wRecommendedAction = recommendedAction result\<rparr>]
           else []
       | None \<Rightarrow> []) rules)"

definition specBlockedActions ::
  "Runtime \<Rightarrow> EnforcementRule list \<Rightarrow> ContractValidationInput \<Rightarrow> string list" where
  "specBlockedActions rt rules input =
     concat (map (\<lambda>r.
       case fired (evaluateRule rt r input) of
         Some result \<Rightarrow> if severity r = BLOCK_ACTION then [category r] else []
       | None \<Rightarrow> []) rules)"

section \<open>Sample runtime, catalog entries and inputs\<close>

text \<open>
  The runtime on strings of ASCII characters and on keys that name no property of
  \<^verbatim>\<open>Object.prototype\<close>, as the state codes and categories of the schema are.
\<close>

definition upperChar :: "char \<Rightarrow> char" where
  "upperChar c = (let n = (of_char c :: nat) in if 97 \<le> n \<and> n \<le> 122 then char_of (n - 32) else c)"

definition lowerChar :: "char \<Rightarrow> char" where
  "lowerChar c = (let n = (of_char c :: nat) in if 65 \<le> n \<and> n \<le> 90 then char_of (n + 32) else c)"

definition asciiRuntime :: Runtime where
  "asciiRuntime =
     \<lparr>toUpperCase = map upperChar, toLowerCase = map lowerChar, inherited = (\<lambda>st cat. None)\<rparr>"

definition exampleRule ::
  "string \<Rightarrow> string \<Rightarrow> string \<Rightarrow> string \<Rightarrow> jsval \<Rightarrow> severity \<Rightarrow> EnforcementRule" where
  "exampleRule rid st cat lt tv sev =
     \<lparr>ruleId = rid, stateCode = st, category = cat, description = ''sample rule'',
      isActive = True, logicType = lt, thresholdValue = tv, severity = sev,
      errorMessage = ''not permitted'', legalBasis = None\<rparr>"

definition emptyInput :: "string \<Rightarrow> ContractValidationInput" where
  "emptyInput code =
     \<lparr>inputStateCode = code, claimType = None, feeType = None, feePercentage = None,
      feeAmount = None, claimAmount = None, isEmergency = None, isDeclaredDisaster = None,
      contractLanguage = None, actionType = None, solicitationTime = None\<rparr>"

text \<open>The payloads \<^verbatim>\<open>{standard, emergency}\<close> and \<^verbatim>\<open>{tier1_limit, tier1_percent, tier2_percent}\<close>.\<close>

definition capsOf :: "number \<Rightarrow> number \<Rightarrow> jsval" where
  "capsOf standard emergency = JObj [(''standard'', JNum standard), (''emergency'', JNum emergency)]"

definition scaleOf :: "number \<Rightarrow> number \<Rightarrow> number \<Rightarrow> jsval" where
  "scaleOf limit percent1 percent2 =
     JObj [(''tier1_limit'', JNum limit), (''tier1_percent'', JNum percent1),
           (''tier2_percent'', JNum percent2)]"

section \<open>Rounding lemmas\<close>

text \<open>\<open>binade x\<close> is the exponent of the power of two at or below \<open>\<bar>x\<bar>\<close>.\<close>

lemma binade_lower:
  assumes "x \<noteq> 0"
  shows "2 powi (binade x) \<le> \<bar>x\<bar>"
proof (cases "1 \<le> \<bar>x\<bar>")
  case True
  define m where "m = \<lfloor>\<bar>x\<bar>\<rfloor>"
  have m: "0 < m" using True by (simp add: m_def)
  have b: "binade x = bitlen m - 1" using True by (simp add: binade_def m_def)
  have "1 \<le> bitlen m" using m by (simp add: bitlen_alt_def)
  then have "2 powi (bitlen m - 1) = (2::real) ^ nat (bitlen m - 1)"
    by (simp add: power_int_def)
  also have "\<dots> \<le> of_int m"
    using bitlen_bounds [OF m] by simp
  also have "\<dots> \<le> \<bar>x\<bar>" by (simp add: m_def)
  finally show ?thesis by (simp add: b)
next
  case False
  define y where "y = 1 / \<bar>x\<bar>"
  have y: "1 < y" using False assms by (simp add: y_def)
  define m where "m = \<lceil>y\<rceil> - 1"
  have m: "0 < m" using y by (simp add: m_def)
  have b: "binade x = - bitlen m" using False by (simp add: binade_def m_def y_def)
  have "y \<le> of_int \<lceil>y\<rceil>" by simp
  also have "of_int \<lceil>y\<rceil> \<le> (2::real) ^ nat (bitlen m)"
    using bitlen_bounds [OF m] m_def by simp
  finally have "y \<le> 2 ^ nat (bitlen m)" .
  then have "1 / 2 ^ nat (bitlen m) \<le> \<bar>x\<bar>"
    using assms by (simp add: y_def field_simps)
  moreover have "2 powi (- bitlen m) = 1 / (2::real) ^ nat (bitlen m)"
    using bitlen_nonneg [of m] by (simp add: power_int_def field_simps)
  ultimately show ?thesis by (simp add: b)
qed

lemma binade_upper:
  assumes "x \<noteq> 0"
  shows "\<bar>x\<bar> < 2 powi (binade x + 1)"
proof (cases "1 \<le> \<bar>x\<bar>")
  case True
  define m where "m = \<lfloor>\<bar>x\<bar>\<rfloor>"
  have m: "0 < m" using True by (simp add: m_def)
  have b: "binade x = bitlen m - 1" using True by (simp add: binade_def m_def)
  have "m + 1 \<le> 2 ^ nat (bitlen m)"
    using bitlen_bounds [OF m] by simp
  then have "real_of_int (m + 1) \<le> 2 ^ nat (bitlen m)"
    by (meson of_int_le_numeral_power_cancel_iff)
  moreover have "\<bar>x\<bar> < real_of_int (m + 1)"
    by (simp add: m_def)
  moreover have "2 powi (bitlen m) = (2::real) ^ nat (bitlen m)"
    using bitlen_nonneg [of m] by (simp add: power_int_def)
  ultimately show ?thesis by (simp add: b)
next
  case False
  define y where "y = 1 / \<bar>x\<bar>"
  have y: "1 < y" using False assms by (simp add: y_def)
  define m where "m = \<lceil>y\<rceil> - 1"
  have m: "0 < m" using y by (simp add: m_def)
  have k: "1 \<le> bitlen m" using m by (simp add: bitlen_alt_def)
  have b: "binade x = - bitlen m" using False by (simp add: binade_def m_def y_def)
  have "2 ^ nat (bitlen m - 1) \<le> \<lceil>y\<rceil> - 1"
    using bitlen_bounds [OF m] m_def by simp
  then have "real_of_int (2 ^ nat (bitlen m - 1)) < y"
    by linarith
  then have "(2::real) ^ nat (bitlen m - 1) < y" by simp
  then have "\<bar>x\<bar> < 1 / 2 ^ nat (bitlen m - 1)"
    using assms by (simp add: y_def field_simps)
  moreover have "2 powi (- bitlen m + 1) = 1 / (2::real) ^ nat (bitlen m - 1)"
  proof -
    have "(2::real) powi (- bitlen m + 1) = 2 powi (- (bitlen m - 1))" by simp
    also have "\<dots> = inverse (2 powi (bitlen m - 1))" by (rule power_int_minus)
    also have "(2::real) powi (bitlen m - 1) = 2 ^ nat (bitlen m - 1)"
      using k by (simp add: power_int_def)
    finally show ?thesis by (simp add: inverse_eq_divide)
  qed
  ultimately show ?thesis by (simp add: b)
qed

lemma binade_unique:
  assumes "2 powi k \<le> \<bar>x\<bar>" and "\<bar>x\<bar> < 2 powi (k + 1)"
  shows "binade x = k"
proof -
  have x: "x \<noteq> 0" using assms(1)
    by (metis abs_le_zero_iff abs_of_nonneg abs_zero power_int_eq_0_iff
        zero_le_numeral zero_le_power_int zero_neq_numeral)
  have "(2::real) powi (binade x) < 2 powi (k + 1)"
    using binade_lower [OF x] assms(2) by linarith
  then have a: "binade x < k + 1"
    by (meson one_le_numeral power_int_increasing verit_comp_simplify1(3))
  have "(2::real) powi k < 2 powi (binade x + 1)"
    using binade_upper [OF x] assms(1) by linarith
  then have "k < binade x + 1"
    by (meson one_le_numeral power_int_increasing verit_comp_simplify1(3))
  with a show ?thesis by simp
qed

lemma roundHalfEven_of_int: "roundHalfEven (of_int n) = n"
  by (simp add: roundHalfEven_def)

lemma roundHalfEven_lower: "\<lfloor>r\<rfloor> \<le> roundHalfEven r"
  by (simp add: roundHalfEven_def Let_def)

lemma roundHalfEven_upper: "roundHalfEven r \<le> \<lceil>r\<rceil>"
  by (simp add: roundHalfEven_def Let_def ceiling_altdef)

lemma roundHalfEven_abs:
  assumes "\<bar>r\<bar> < of_int b"
  shows "\<bar>roundHalfEven r\<bar> \<le> b"
proof -
  have "- b \<le> \<lfloor>r\<rfloor>" using assms by linarith
  moreover have "\<lceil>r\<rceil> \<le> b" using assms by linarith
  ultimately show ?thesis
    using roundHalfEven_lower [of r] roundHalfEven_upper [of r] by linarith
qed

lemma round64_zero: "round64 0 = Fin 0"
  by (simp add: round64_def roundHalfEven_def)

lemma exact_quotient:
  assumes "q \<noteq> 0" and "y / q = of_int k"
  shows "of_int (roundHalfEven (y / q)) * q = y"
  using assms by (simp add: roundHalfEven_of_int field_simps)

lemma round64_idem:
  assumes "round64 x = Fin y"
  shows "round64 y = Fin y"
proof (cases "y = 0")
  case True
  then show ?thesis by (simp add: round64_zero)
next
  case False
  define e where "e = max (binade x) (- 1022)"
  define q where "q = (2::real) powi (e - 52)"
  define n where "n = roundHalfEven (x / q)"
  have q0: "0 < q" by (simp add: q_def)
  from assms have y: "y = of_int n * q" and small: "\<not> 2 ^ 1024 \<le> \<bar>y\<bar>"
    by (auto simp add: round64_def Let_def e_def q_def n_def split: if_splits)
  have x0: "x \<noteq> 0"
    using False y by (auto simp add: n_def roundHalfEven_def)
  have "\<bar>x\<bar> < 2 powi (binade x + 1)" by (rule binade_upper [OF x0])
  also have "\<dots> \<le> 2 powi (e + 1)"
    by (rule power_int_increasing) (simp_all add: e_def)
  finally have xb: "\<bar>x\<bar> < 2 powi (e + 1)" .
  have pw: "2 powi (e + 1) = q * (2::real) ^ 53"
  proof -
    have "(2::real) powi (e + 1) = 2 powi ((e - 52) + 53)" by (simp add: add.commute)
    also have "\<dots> = 2 powi (e - 52) * 2 powi 53" by (rule power_int_add) simp
    finally show ?thesis by (simp add: q_def)
  qed
  from pw xb q0 have "\<bar>x / q\<bar> < of_int (2 ^ 53)"
    by (simp add: field_simps)
  then have nb: "\<bar>n\<bar> \<le> 2 ^ 53"
    unfolding n_def by (rule roundHalfEven_abs)
  define e' where "e' = max (binade y) (- 1022)"
  define q' where "q' = (2::real) powi (e' - 52)"
  have q'0: "q' \<noteq> 0" by (simp add: q'_def)
  have yb: "\<bar>y\<bar> \<le> 2 powi (e + 1)"
  proof -
    have "real_of_int \<bar>n\<bar> \<le> 2 ^ 53"
      using nb by (meson of_int_le_numeral_power_cancel_iff)
    then have "real_of_int \<bar>n\<bar> * q \<le> 2 ^ 53 * q"
      using q0 by (intro mult_right_mono) simp_all
    moreover have "\<bar>y\<bar> = real_of_int \<bar>n\<bar> * q"
      using q0 by (simp add: y abs_mult)
    ultimately show ?thesis by (simp add: pw mult.commute)
  qed
  have "2 powi (binade y) \<le> \<bar>y\<bar>" by (rule binade_lower [OF False])
  with yb have "(2::real) powi (binade y) \<le> 2 powi (e + 1)" by linarith
  then have by1: "binade y \<le> e + 1"
  proof -
    assume le: "(2::real) powi (binade y) \<le> 2 powi (e + 1)"
    show ?thesis
    proof (rule ccontr)
      assume "\<not> binade y \<le> e + 1"
      then have "e + 1 < binade y" by simp
      then have "(2::real) powi (e + 1) < 2 powi (binade y)"
        by (rule power_int_strict_increasing) simp
      with le show False by linarith
    qed
  qed
  have "\<exists>k. y / q' = of_int k"
  proof (cases "e' \<le> e")
    case True
    have "q / q' = 2 powi ((e - 52) - (e' - 52))"
      unfolding q_def q'_def by (rule power_int_diff [symmetric]) simp
    then have "q / q' = 2 powi (e - e')" by simp
    then have "y / q' = of_int n * 2 powi (e - e')"
      using times_divide_eq_right [of "real_of_int n" q q'] by (simp add: y)
    also have "\<dots> = of_int (n * 2 ^ nat (e - e'))"
      using True by (simp add: power_int_def)
    finally show ?thesis by blast
  next
    case False
    then have ee: "e' = e + 1" and "binade y = e + 1"
      using by1 by (auto simp add: e'_def e_def)
    then have "2 powi (e + 1) \<le> \<bar>y\<bar>"
      using binade_lower [OF \<open>y \<noteq> 0\<close>] by simp
    with yb have ya: "\<bar>y\<bar> = 2 powi (e + 1)" by linarith
    have "2 powi (e + 1) / q' = (2::real) powi ((e + 1) - (e' - 52))"
      unfolding q'_def by (rule power_int_diff [symmetric]) simp
    then have "2 powi (e + 1) / q' = (2::real) ^ 52"
      by (simp add: ee)
    with ya have "\<bar>y\<bar> / q' = 2 ^ 52" by simp
    then have "y / q' = of_int (if 0 < y then 2 ^ 52 else - (2 ^ 52))"
      by (cases "0 < y") (simp_all add: abs_if split: if_splits)
    then show ?thesis by blast
  qed
  then obtain k where "y / q' = of_int k" by blast
  from exact_quotient [OF q'0 this] small show ?thesis
    by (simp add: round64_def Let_def e'_def q'_def)
qed

text \<open>A value below \<open>2 ^ 1023\<close> in magnitude rounds to a finite double.\<close>

lemma round64_finite:
  assumes "\<bar>x\<bar> < 2 ^ 1023"
  shows "\<exists>y. round64 x = Fin y"
proof (cases "x = 0")
  case True
  then show ?thesis by (simp add: round64_zero)
next
  case False
  define e where "e = max (binade x) (- 1022)"
  define q where "q = (2::real) powi (e - 52)"
  define n where "n = roundHalfEven (x / q)"
  have q0: "0 < q" by (simp add: q_def)
  have "(2::real) powi (binade x) \<le> \<bar>x\<bar>" by (rule binade_lower [OF False])
  with assms have "(2::real) powi (binade x) < 2 powi 1023" by simp
  then have "binade x < 1023"
    by (meson one_le_numeral power_int_increasing verit_comp_simplify1(3))
  then have e: "e + 1 \<le> 1023" by (simp add: e_def)
  have "\<bar>x\<bar> < 2 powi (binade x + 1)" by (rule binade_upper [OF False])
  also have "\<dots> \<le> 2 powi (e + 1)"
    by (rule power_int_increasing) (simp_all add: e_def)
  finally have xb: "\<bar>x\<bar> < 2 powi (e + 1)" .
  have pw: "2 powi (e + 1) = q * (2::real) ^ 53"
  proof -
    have "(2::real) powi (e + 1) = 2 powi ((e - 52) + 53)" by (simp add: add.commute)
    also have "\<dots> = 2 powi (e - 52) * 2 powi 53" by (rule power_int_add) simp
    finally show ?thesis by (simp add: q_def)
  qed
  from pw xb q0 have "\<bar>x / q\<bar> < of_int (2 ^ 53)"
    by (simp add: field_simps)
  then have nb: "\<bar>n\<bar> \<le> 2 ^ 53"
    unfolding n_def by (rule roundHalfEven_abs)
  have "real_of_int \<bar>n\<bar> \<le> 2 ^ 53"
    using nb by (meson of_int_le_numeral_power_cancel_iff)
  then have "real_of_int \<bar>n\<bar> * q \<le> 2 ^ 53 * q"
    using q0 by (intro mult_right_mono) simp_all
  moreover have "\<bar>of_int n * q\<bar> = real_of_int \<bar>n\<bar> * q"
    using q0 by (simp add: abs_mult)
  ultimately have "\<bar>of_int n * q\<bar> \<le> 2 powi (e + 1)" by (simp add: pw mult.commute)
  also have "\<dots> \<le> (2::real) powi 1023"
    by (rule power_int_increasing) (use e in simp_all)
  also have "\<dots> < (2::real) ^ 1024" by simp
  finally have "\<not> 2 ^ 1024 \<le> \<bar>of_int n * q\<bar>" by simp
  then show ?thesis
    by (simp add: round64_def Let_def flip: e_def q_def n_def)
qed

text \<open>Adding zero to a rounded value changes nothing.\<close>

lemma js_add_zero: "js_add (round64 x) (Fin 0) = round64 x"
proof (cases "round64 x")
  case (Fin y)
  then show ?thesis using round64_idem [of x y] by simp
qed simp_all

text \<open>A value at or below zero rounds to a value at or below zero.\<close>

lemma round64_nonpos:
  assumes "x \<le> 0"
  shows "Math_max (Fin 0) (round64 x) = Fin 0"
proof -
  define q where "q = (2::real) powi (max (binade x) (- 1022) - 52)"
  have q0: "0 < q" by (simp add: q_def)
  have "x / q \<le> 0" using assms q0 by (simp add: field_simps)
  then have "\<lceil>x / q\<rceil> \<le> 0" by (simp add: ceiling_le_iff)
  then have "roundHalfEven (x / q) \<le> 0"
    using roundHalfEven_upper [of "x / q"] by linarith
  then have "real_of_int (roundHalfEven (x / q)) * q \<le> 0"
    using q0 by (simp add: mult_le_0_iff)
  then show ?thesis
    using assms by (simp add: round64_def Let_def Math_max_def flip: q_def)
qed

text \<open>Evaluation of \<open>round64\<close> at a numeral, and the doubles of some decimal literals.\<close>

lemmas round64_eval =
  round64_def binade_def compute_bitlen roundHalfEven_def Let_def power_int_minus

lemma double_0_025: "round64 0.025 = Fin (3602879701896397 / 144115188075855872)"
  by (simp add: round64_eval)

lemma double_0_12: "round64 0.12 = Fin (1080863910568919 / 9007199254740992)"
  by (simp add: round64_eval)

lemma double_0_33: "round64 0.33 = Fin (5944751508129055 / 18014398509481984)"
  by (simp add: round64_eval)

lemma double_0_10: "round64 0.10 = Fin (3602879701896397 / 36028797018963968)"
  by (simp add: round64_eval)

lemma double_0_11: "round64 0.11 = Fin (7926335344172073 / 72057594037927936)"
  by (simp add: round64_eval)

lemma double_0_15: "round64 0.15 = Fin (5404319552844595 / 36028797018963968)"
  by (simp add: round64_eval)

lemma double_0_20: "round64 0.20 = Fin (3602879701896397 / 18014398509481984)"
  by (simp add: round64_eval)

lemma double_883_6: "round64 883.6 = Fin (7772227794422989 / 8796093022208)"
  by (simp add: round64_eval)

text \<open>The same equations with the decimals as the simplifier writes them.\<close>

lemmas doubles =
  double_0_025 [simplified] double_0_12 [simplified] double_0_33 [simplified]
  double_0_10 [simplified] double_0_11 [simplified] double_0_15 [simplified]
  double_0_20 [simplified] double_883_6 [simplified]

section \<open>Helper lemmas\<close>

lemma js_gt_irrefl: "\<not> js_gt a a"
  by (cases a) (simp_all add: js_gt_def)

lemma js_div_zero_not_finite: "\<not> isFinite (js_div a (Fin 0))"
  by (cases a) (simp_all add: signedInfinity_def)

lemma feeTypeName_inj: "feeTypeName a = feeTypeName b \<longleftrightarrow> a = b"
  by (cases a; cases b) simp_all

lemma feeTypeName_nonempty: "feeTypeName a \<noteq> []"
  by (cases a) simp_all

text \<open>
  A list that holds the empty string, which is no fee type, matches the absent fee type.
\<close>

lemma empty_string_matches_absent_fee_type:
  assumes "thresholdValue rule = JArr forbiddenTypes" and "JStr [] \<in> set forbiddenTypes"
    and "feeType input = None"
  shows "map_sum id violated (evaluateForbiddenFeeType rule input) = Inr True"
  using assms by (simp add: evaluateForbiddenFeeType_def)

text \<open>
  One iteration adds a fired rule to exactly one of the two lists, unless its severity
  is \<^verbatim>\<open>WARNING_ONLY\<close>.
\<close>

lemma collect_counts:
  assumes "collect rule result (vs, ws, bs) = (vs', ws', bs')"
  shows "length vs' + length ws' =
           length vs + length ws + (if violated result \<and> severity rule \<noteq> WARNING_ONLY then 1 else 0)"
  using assms by (cases "severity rule") (auto split: if_splits)

text \<open>The loop, from any state of the three arrays.\<close>

lemma processRules_collects:
  "processRules rt rules input (vs, ws, bs) =
     (if \<forall>r \<in> set rules. \<exists>result. evaluateRule rt r input = Inr result
      then Inr (vs @ specViolations rt rules input,
                ws @ specWarnings rt rules input,
                bs @ specBlockedActions rt rules input)
      else Inl TypeError)"
proof (induction rules arbitrary: vs ws bs)
  case Nil
  show ?case by (simp add: specViolations_def specWarnings_def specBlockedActions_def)
next
  case (Cons r rules)
  show ?case
  proof (cases "evaluateRule rt r input")
    case (Inl e)
    then show ?thesis by (cases e) (simp add: processRule_def)
  next
    case (Inr result)
    then show ?thesis
      by (cases "severity r")
         (auto simp add: processRule_def Cons.IH specViolations_def specWarnings_def
            specBlockedActions_def fired_def violationOf_def warningOf_def
            Option.bind_def split: option.split)
  qed
qed

text \<open>The definitions that a concrete evaluation unfolds.\<close>

lemmas handler_defs =
  evaluateRule_def evaluateForbiddenKeyword_def evaluateForbiddenAction_def
  evaluateForbiddenFeeType_def evaluateMaxPercentage_def evaluateDynamicCap_def
  evaluateSlidingScale_def evaluateTimeWindow_def evaluateTimeBasedRestriction_def
  evaluateLanguageRequirement_def evaluateRequiredDisclosure_def evaluateDynamicRescission_def
  bindE_def toNumber_def toText_def getField_def notViolated_def Let_def

lemmas sample_defs =
  exampleRule_def emptyInput_def asciiRuntime_def upperChar_def lowerChar_def capsOf_def
  scaleOf_def

section \<open>Claims\<close>

text \<open>
  \<^bold>\<open>C1\<close> (violations and warnings partition the fired rules, none omitted).
  The rule schema has a fifth severity, \<^verbatim>\<open>WARNING_ONLY\<close>, that the loop has no branch
  for. A green-zone fee cap of 33 percent with that severity fires on a fee of 50 percent,
  and the verdict holds it neither in \<open>violations\<close> nor in \<open>warnings\<close>.
\<close>

theorem warning_only_rule_is_dropped:
  "map_sum id violated
     (evaluateRule rt
        (exampleRule ''r1'' ''DEFAULT_GREEN'' ''FEE_CAP'' ''MAX_PERCENTAGE'' (JNum (round64 0.33)) WARNING_ONLY)
        ((emptyInput ''OH'')\<lparr>feePercentage := Some (Fin 0.5)\<rparr>)) = Inr True
   \<and> validateContract rt
       [exampleRule ''r1'' ''DEFAULT_GREEN'' ''FEE_CAP'' ''MAX_PERCENTAGE'' (JNum (round64 0.33)) WARNING_ONLY]
       ((emptyInput ''OH'')\<lparr>feePercentage := Some (Fin 0.5)\<rparr>)
     = Inr \<lparr>isValid = True, violations = [], warnings = [], blockedActions = []\<rparr>"
  by (simp add: validateContract_def findRules_def processRule_def evaluateRule_def
        evaluateMaxPercentage_def toNumber_def bindE_def exampleRule_def emptyInput_def
        js_gt_def Let_def doubles)

text \<open>
  \<^bold>\<open>C2\<close> (aggregation postcondition of \<^verbatim>\<open>validateContract\<close>). For every catalog and
  input: when no applicable rule throws, the verdict holds in \<open>violations\<close> the fired
  rules of severity \<^verbatim>\<open>BLOCK_ACTION\<close> or \<^verbatim>\<open>WARN_BLOCK\<close>, in \<open>blockedActions\<close> the
  categories of the fired rules of severity \<^verbatim>\<open>BLOCK_ACTION\<close>, in \<open>warnings\<close> the fired
  rules of severity \<^verbatim>\<open>WARN_CONTINUE\<close> or \<^verbatim>\<open>INFO_ONLY\<close>, each entry with the fields of its
  rule and each list in catalog order, and \<open>isValid\<close> is \<^verbatim>\<open>violations.length == 0\<close>;
  when an applicable rule throws, there is no verdict.
\<close>

theorem validateContract_aggregation:
  "validateContract rt catalog input =
     (if \<forall>r \<in> set (findRules rt catalog (inputStateCode input)).
           \<exists>result. evaluateRule rt r input = Inr result
      then Inr \<lparr>isValid =
                  (length (specViolations rt (findRules rt catalog (inputStateCode input)) input) = 0),
                violations = specViolations rt (findRules rt catalog (inputStateCode input)) input,
                warnings = specWarnings rt (findRules rt catalog (inputStateCode input)) input,
                blockedActions =
                  specBlockedActions rt (findRules rt catalog (inputStateCode input)) input\<rparr>
      else Inl TypeError)"
  by (simp add: validateContract_def processRules_collects)

text \<open>
  A catalog of six rules and an input of state \<^verbatim>\<open>AL\<close> with a contingency fee of 50
  percent: the ban and the fee-type rule are violations in that order, the green-zone cap
  and the green-zone keyword rule are warnings in that order, only the ban blocks, the
  disclosure does not fire and the rule of another state is not looked at.
\<close>

theorem validateContract_aggregation_witness:
  "validateContract asciiRuntime
     [(exampleRule ''ban'' ''AL'' ''LICENSE_RESTRICTION'' ''FORBIDDEN_ACTION'' JNull BLOCK_ACTION)
        \<lparr>legalBasis := Some \<lparr>statute = Some ''Code 34-3-6'', consequences = Some [''fine'']\<rparr>\<rparr>,
      exampleRule ''fl-cap'' ''FL'' ''FEE_CAP'' ''MAX_PERCENTAGE'' (JNum (round64 0.10)) WARN_BLOCK,
      exampleRule ''green-cap'' ''DEFAULT_GREEN'' ''FEE_CAP'' ''MAX_PERCENTAGE'' (JNum (round64 0.33))
        WARN_CONTINUE,
      exampleRule ''disclosure'' ''AL'' ''RESCISSION'' ''REQUIRED_DISCLOSURE'' (JStr ''3-day rescission'')
        INFO_ONLY,
      exampleRule ''fee-type'' ''AL'' ''FEE_STRUCTURE'' ''FORBIDDEN_FEE_TYPE'' (JArr [JStr ''CONTINGENCY''])
        WARN_BLOCK,
      exampleRule ''green-info'' ''DEFAULT_GREEN'' ''UPL_PREVENTION'' ''FORBIDDEN_KEYWORD''
        (JArr [JStr ''CONTINGENCY'']) INFO_ONLY]
     ((emptyInput ''AL'')\<lparr>feePercentage := Some (Fin 0.5), feeType := Some CONTINGENCY\<rparr>)
   = Inr \<lparr>isValid = False,
          violations =
            [\<lparr>vRuleId = ''ban'', vStateCode = ''AL'', vCategory = ''LICENSE_RESTRICTION'',
              vSeverity = BLOCK_ACTION, vErrorMessage = ''not permitted'',
              vLegalBasis = Some ''Code 34-3-6'', vConsequences = Some [''fine''],
              vRecommendedAction =
                Some [Lit ''Refer client to licensed attorney in '', Lit ''AL'',
                      Lit ''. Public adjusting is illegal in this state.'']\<rparr>,
             \<lparr>vRuleId = ''fee-type'', vStateCode = ''AL'', vCategory = ''FEE_STRUCTURE'',
              vSeverity = WARN_BLOCK, vErrorMessage = ''not permitted'',
              vLegalBasis = None, vConsequences = None,
              vRecommendedAction = Some [Lit ''Use HOURLY or FLAT_FEE billing structure only.'']\<rparr>],
          warnings =
            [\<lparr>wRuleId = ''green-cap'', wStateCode = ''DEFAULT_GREEN'', wCategory = ''FEE_CAP'',
              wMessage = ''not permitted'',
              wRecommendedAction =
                Some [Lit ''Reduce fee to '', Fixed (Fin 33) 1, Lit ''% or less to comply with '',
                      Lit ''DEFAULT_GREEN'', Lit '' law.'']\<rparr>,
             \<lparr>wRuleId = ''green-info'', wStateCode = ''DEFAULT_GREEN'', wCategory = ''UPL_PREVENTION'',
              wMessage = ''not permitted'',
              wRecommendedAction =
                Some [Lit ''Contact state Department of Insurance for guidance.'']\<rparr>],
          blockedActions = [''LICENSE_RESTRICTION'']\<rparr>"
  using validateContract_aggregation
    [of asciiRuntime
        "[(exampleRule ''ban'' ''AL'' ''LICENSE_RESTRICTION'' ''FORBIDDEN_ACTION'' JNull BLOCK_ACTION)
            \<lparr>legalBasis := Some \<lparr>statute = Some ''Code 34-3-6'', consequences = Some [''fine'']\<rparr>\<rparr>,
          exampleRule ''fl-cap'' ''FL'' ''FEE_CAP'' ''MAX_PERCENTAGE'' (JNum (round64 0.10)) WARN_BLOCK,
          exampleRule ''green-cap'' ''DEFAULT_GREEN'' ''FEE_CAP'' ''MAX_PERCENTAGE'' (JNum (round64 0.33))
            WARN_CONTINUE,
          exampleRule ''disclosure'' ''AL'' ''RESCISSION'' ''REQUIRED_DISCLOSURE'' (JStr ''3-day rescission'')
            INFO_ONLY,
          exampleRule ''fee-type'' ''AL'' ''FEE_STRUCTURE'' ''FORBIDDEN_FEE_TYPE'' (JArr [JStr ''CONTINGENCY''])
            WARN_BLOCK,
          exampleRule ''green-info'' ''DEFAULT_GREEN'' ''UPL_PREVENTION'' ''FORBIDDEN_KEYWORD''
            (JArr [JStr ''CONTINGENCY'']) INFO_ONLY]"
        "(emptyInput ''AL'')\<lparr>feePercentage := Some (Fin 0.5), feeType := Some CONTINGENCY\<rparr>"]
  by (simp add: findRules_def specViolations_def specWarnings_def specBlockedActions_def fired_def
        handler_defs sample_defs keywordMatches_def getRecommendedAction_def recommendations_def
        js_gt_def doubles round64_eval)

text \<open>
  \<^bold>\<open>C3\<close> as stated fails: a fee percentage of \<open>0\<close> is present and exceeds a cap of
  \<open>-1\<close>, and the rule does not fire, because \<^verbatim>\<open>!feePercentage\<close> holds for \<open>0\<close>.
\<close>

theorem max_percentage_zero_fee_counterexample:
  "feePercentage ((emptyInput ''TN'')\<lparr>feePercentage := Some (Fin 0)\<rparr>) = Some (Fin 0)
   \<and> js_gt (Fin 0) (Fin (- 1))
   \<and> map_sum id violated
       (evaluateRule asciiRuntime
          (exampleRule ''r1'' ''TN'' ''FEE_CAP'' ''MAX_PERCENTAGE'' (JNum (Fin (- 1))) BLOCK_ACTION)
          ((emptyInput ''TN'')\<lparr>feePercentage := Some (Fin 0)\<rparr>)) = Inr False"
  by (simp add: handler_defs sample_defs js_gt_def)

text \<open>
  \<^bold>\<open>C3\<close>, amended. A \<^verbatim>\<open>MAX_PERCENTAGE\<close> rule with cap \<open>c\<close> does not fire when the fee
  percentage is absent, \<open>0\<close> or NaN; otherwise it fires if and only if the fee percentage
  is greater than \<open>c\<close>. A fee percentage equal to the cap never fires.
\<close>

theorem max_percentage_fires_iff:
  assumes "logicType rule = ''MAX_PERCENTAGE''" and "thresholdValue rule = JNum c"
  shows "map_sum id violated (evaluateRule rt rule input) =
           Inr (case feePercentage input of
                  None \<Rightarrow> False
                | Some fee \<Rightarrow> truthy fee \<and> js_gt fee c)
         \<and> (feePercentage input = Some c \<longrightarrow>
              map_sum id violated (evaluateRule rt rule input) = Inr False)"
  using assms js_gt_irrefl [of c]
  by (simp add: evaluateRule_def evaluateMaxPercentage_def notViolated_def Let_def
        toNumber_def bindE_def split: option.split)

text \<open>A cap of 10 percent: 11 percent fires, 10 percent does not, an absent fee does not.\<close>

theorem max_percentage_fires_iff_witness:
  "map_sum id violated
     (evaluateRule asciiRuntime
        (exampleRule ''r1'' ''TN'' ''FEE_CAP'' ''MAX_PERCENTAGE'' (JNum (round64 0.10)) BLOCK_ACTION)
        ((emptyInput ''TN'')\<lparr>feePercentage := Some (round64 0.11)\<rparr>)) = Inr True
   \<and> map_sum id violated
     (evaluateRule asciiRuntime
        (exampleRule ''r1'' ''TN'' ''FEE_CAP'' ''MAX_PERCENTAGE'' (JNum (round64 0.10)) BLOCK_ACTION)
        ((emptyInput ''TN'')\<lparr>feePercentage := Some (round64 0.10)\<rparr>)) = Inr False
   \<and> map_sum id violated
     (evaluateRule asciiRuntime
        (exampleRule ''r1'' ''TN'' ''FEE_CAP'' ''MAX_PERCENTAGE'' (JNum (round64 0.10)) BLOCK_ACTION)
        (emptyInput ''TN'')) = Inr False"
  using max_percentage_fires_iff
      [of "exampleRule ''r1'' ''TN'' ''FEE_CAP'' ''MAX_PERCENTAGE'' (JNum (round64 0.10)) BLOCK_ACTION"
          "round64 0.10" asciiRuntime "(emptyInput ''TN'')\<lparr>feePercentage := Some (round64 0.11)\<rparr>"]
    max_percentage_fires_iff
      [of "exampleRule ''r1'' ''TN'' ''FEE_CAP'' ''MAX_PERCENTAGE'' (JNum (round64 0.10)) BLOCK_ACTION"
          "round64 0.10" asciiRuntime "(emptyInput ''TN'')\<lparr>feePercentage := Some (round64 0.10)\<rparr>"]
    max_percentage_fires_iff
      [of "exampleRule ''r1'' ''TN'' ''FEE_CAP'' ''MAX_PERCENTAGE'' (JNum (round64 0.10)) BLOCK_ACTION"
          "round64 0.10" asciiRuntime "emptyInput ''TN''"]
  by (simp add: exampleRule_def emptyInput_def js_gt_def doubles)

text \<open>
  \<^bold>\<open>C4\<close> as stated fails, on the Delaware scale \<^verbatim>\<open>{25000, 0.025, 0.12}\<close>, in two ways.
  With the fee amount \<open>100\<close> and the claim amount \<open>0\<close> both present, the fee exceeds the
  tiered maximum, which is \<open>0\<close>, and the rule does not fire, because \<^verbatim>\<open>!claimAmount\<close>
  holds for \<open>0\<close>. With the claim amount \<open>27155\<close> and the fee amount \<^verbatim>\<open>883.6\<close>, the fee
  does not exceed the tiered maximum of the formula, and the rule fires, because the
  code computes the maximum in doubles and gets the next double below.
\<close>

theorem sliding_scale_counterexample:
  "feeAmount ((emptyInput ''DE'')\<lparr>feeAmount := Some (Fin 100), claimAmount := Some (Fin 0)\<rparr>)
     = Some (Fin 100)
   \<and> claimAmount ((emptyInput ''DE'')\<lparr>feeAmount := Some (Fin 100), claimAmount := Some (Fin 0)\<rparr>)
     = Some (Fin 0)
   \<and> 100 > exactTieredMaximum 0 25000
             (3602879701896397 / 144115188075855872) (1080863910568919 / 9007199254740992)
   \<and> map_sum id violated
       (evaluateRule asciiRuntime
          (exampleRule ''r1'' ''DE'' ''FEE_CAP'' ''SLIDING_SCALE''
             (scaleOf (Fin 25000) (round64 0.025) (round64 0.12)) BLOCK_ACTION)
          ((emptyInput ''DE'')\<lparr>feeAmount := Some (Fin 100), claimAmount := Some (Fin 0)\<rparr>))
     = Inr False
   \<and> round64 0.025 = Fin (3602879701896397 / 144115188075855872)
   \<and> round64 0.12 = Fin (1080863910568919 / 9007199254740992)
   \<and> round64 883.6 = Fin (7772227794422989 / 8796093022208)
   \<and> \<not> 7772227794422989 / 8796093022208
         > exactTieredMaximum 27155 25000
             (3602879701896397 / 144115188075855872) (1080863910568919 / 9007199254740992)
   \<and> map_sum id violated
       (evaluateRule asciiRuntime
          (exampleRule ''r1'' ''DE'' ''FEE_CAP'' ''SLIDING_SCALE''
             (scaleOf (Fin 25000) (round64 0.025) (round64 0.12)) BLOCK_ACTION)
          ((emptyInput ''DE'')\<lparr>feeAmount := Some (round64 883.6), claimAmount := Some (Fin 27155)\<rparr>))
     = Inr True"
  by (simp add: handler_defs sample_defs js_gt_def exactTieredMaximum_def Math_min_def Math_max_def
        js_sub_def doubles round64_eval)

text \<open>
  \<^bold>\<open>C4\<close>, amended. A \<^verbatim>\<open>SLIDING_SCALE\<close> rule does not fire when the fee amount or the
  claim amount is absent, \<open>0\<close> or NaN; otherwise it fires if and only if the fee amount is
  greater than the tiered maximum in the arithmetic of doubles, where the difference, the
  two products and the sum are each rounded to the nearest double. At a claim amount equal
  to the tier limit the second tier adds nothing and the maximum is the rounded product of
  limit and first percentage.
\<close>

theorem sliding_scale_fires_iff:
  assumes "logicType rule = ''SLIDING_SCALE''"
    and "thresholdValue rule = JObj kvs"
    and "map_of kvs ''tier1_limit'' = Some (JNum l)"
    and "map_of kvs ''tier1_percent'' = Some (JNum p1)"
    and "map_of kvs ''tier2_percent'' = Some (JNum p2)"
  shows "map_sum id violated (evaluateRule rt rule input) =
           Inr (case (feeAmount input, claimAmount input) of
                  (Some fee, Some claim) \<Rightarrow>
                    truthy fee \<and> truthy claim \<and> js_gt fee (tieredMaximum claim l p1 p2)
                | _ \<Rightarrow> False)
         \<and> tieredMaximum (Fin c) (Fin L) (Fin P1) (Fin P2) =
             js_add (round64 (min c L * P1))
                    (js_mul (Math_max (Fin 0) (round64 (c - L))) (Fin P2))
         \<and> tieredMaximum (Fin L) (Fin L) (Fin P1) (Fin P2) = round64 (L * P1)"
proof -
  have fires: "map_sum id violated (evaluateRule rt rule input) =
           Inr (case (feeAmount input, claimAmount input) of
                  (Some fee, Some claim) \<Rightarrow>
                    truthy fee \<and> truthy claim \<and> js_gt fee (tieredMaximum claim l p1 p2)
                | _ \<Rightarrow> False)"
    using assms
    by (auto simp add: evaluateRule_def evaluateSlidingScale_def notViolated_def Let_def
          toNumber_def getField_def bindE_def tieredMaximum_def split: option.split)
  have finite: "tieredMaximum (Fin c) (Fin L) (Fin P1) (Fin P2) =
             js_add (round64 (min c L * P1))
                    (js_mul (Math_max (Fin 0) (round64 (c - L))) (Fin P2))"
    by (simp add: tieredMaximum_def Math_min_def js_sub_def min_def)
  have boundary: "tieredMaximum (Fin L) (Fin L) (Fin P1) (Fin P2) = round64 (L * P1)"
    by (simp add: tieredMaximum_def Math_min_def Math_max_def js_sub_def round64_zero js_add_zero)
  from fires finite boundary show ?thesis by (intro conjI)
qed

text \<open>
  The scale \<^verbatim>\<open>{25000, 0.025, 0.12}\<close> on a claim of \<open>100000\<close>: the maximum is \<open>9625\<close>,
  a fee of \<open>9625\<close> does not fire, \<open>9626\<close> fires, and without a claim amount nothing fires.
  On a claim of \<open>25000\<close>, the tier limit, the maximum is \<open>625\<close>.
\<close>

theorem sliding_scale_fires_iff_witness:
  "tieredMaximum (Fin 100000) (Fin 25000) (round64 0.025) (round64 0.12) = Fin 9625
   \<and> map_sum id violated
       (evaluateRule asciiRuntime
          (exampleRule ''r1'' ''DE'' ''FEE_CAP'' ''SLIDING_SCALE''
             (scaleOf (Fin 25000) (round64 0.025) (round64 0.12)) BLOCK_ACTION)
          ((emptyInput ''DE'')\<lparr>feeAmount := Some (Fin 9625), claimAmount := Some (Fin 100000)\<rparr>)) = Inr False
   \<and> map_sum id violated
       (evaluateRule asciiRuntime
          (exampleRule ''r1'' ''DE'' ''FEE_CAP'' ''SLIDING_SCALE''
             (scaleOf (Fin 25000) (round64 0.025) (round64 0.12)) BLOCK_ACTION)
          ((emptyInput ''DE'')\<lparr>feeAmount := Some (Fin 9626), claimAmount := Some (Fin 100000)\<rparr>)) = Inr True
   \<and> map_sum id violated
       (evaluateRule asciiRuntime
          (exampleRule ''r1'' ''DE'' ''FEE_CAP'' ''SLIDING_SCALE''
             (scaleOf (Fin 25000) (round64 0.025) (round64 0.12)) BLOCK_ACTION)
          ((emptyInput ''DE'')\<lparr>feeAmount := Some (Fin 9626)\<rparr>)) = Inr False
   \<and> tieredMaximum (Fin 25000) (Fin 25000) (round64 0.025) (round64 0.12) = Fin 625"
proof -
  let ?rule = "exampleRule ''r1'' ''DE'' ''FEE_CAP'' ''SLIDING_SCALE''
                 (scaleOf (Fin 25000) (round64 0.025) (round64 0.12)) BLOCK_ACTION"
  let ?kvs = "[(''tier1_limit'', JNum (Fin 25000)), (''tier1_percent'', JNum (round64 0.025)),
               (''tier2_percent'', JNum (round64 0.12))]"
  have h1: "logicType ?rule = ''SLIDING_SCALE''" by (simp add: exampleRule_def)
  have h2: "thresholdValue ?rule = JObj ?kvs" by (simp add: exampleRule_def scaleOf_def)
  have h3: "map_of ?kvs ''tier1_limit'' = Some (JNum (Fin 25000))" by simp
  have h4: "map_of ?kvs ''tier1_percent'' = Some (JNum (round64 0.025))" by simp
  have h5: "map_of ?kvs ''tier2_percent'' = Some (JNum (round64 0.12))" by simp
  have maximum: "tieredMaximum (Fin 100000) (Fin 25000) (round64 0.025) (round64 0.12) = Fin 9625"
    by (simp add: tieredMaximum_def Math_min_def Math_max_def js_sub_def doubles round64_eval)
  note inst = sliding_scale_fires_iff [OF h1 h2 h3 h4 h5, of asciiRuntime]
  have boundary: "tieredMaximum (Fin 25000) (Fin 25000) (round64 0.025) (round64 0.12) = Fin 625"
    using inst [of "emptyInput ''DE''" 0 25000
                   "3602879701896397 / 144115188075855872" "1080863910568919 / 9007199254740992",
                THEN conjunct2, THEN conjunct2]
    by (simp add: doubles round64_eval)
  have fires: "map_sum id violated
       (evaluateRule asciiRuntime ?rule
          ((emptyInput ''DE'')\<lparr>feeAmount := Some (Fin 9625), claimAmount := Some (Fin 100000)\<rparr>)) = Inr False
   \<and> map_sum id violated
       (evaluateRule asciiRuntime ?rule
          ((emptyInput ''DE'')\<lparr>feeAmount := Some (Fin 9626), claimAmount := Some (Fin 100000)\<rparr>)) = Inr True
   \<and> map_sum id violated
       (evaluateRule asciiRuntime ?rule
          ((emptyInput ''DE'')\<lparr>feeAmount := Some (Fin 9626)\<rparr>)) = Inr False"
    using maximum
      inst [of "(emptyInput ''DE'')\<lparr>feeAmount := Some (Fin 9625), claimAmount := Some (Fin 100000)\<rparr>"
              0 0 0 0]
      inst [of "(emptyInput ''DE'')\<lparr>feeAmount := Some (Fin 9626), claimAmount := Some (Fin 100000)\<rparr>"
              0 0 0 0]
      inst [of "(emptyInput ''DE'')\<lparr>feeAmount := Some (Fin 9626)\<rparr>" 0 0 0 0]
    by (simp add: emptyInput_def js_gt_def)
  from maximum fires boundary show ?thesis by simp
qed

text \<open>
  \<^bold>\<open>C5\<close> (a \<^verbatim>\<open>FORBIDDEN_ACTION\<close> rule fires on every input, and its payload is ignored).
\<close>

theorem forbidden_action_always_fires:
  assumes "logicType rule = ''FORBIDDEN_ACTION''"
  shows "map_sum id violated (evaluateRule rt rule input) = Inr True
         \<and> evaluateRule rt (rule\<lparr>thresholdValue := payload\<rparr>) input = evaluateRule rt rule input"
  using assms by (simp add: evaluateRule_def evaluateForbiddenAction_def)

text \<open>The input with every optional field absent.\<close>

theorem forbidden_action_always_fires_witness:
  "map_sum id violated
     (evaluateRule asciiRuntime
        (exampleRule ''r1'' ''AL'' ''LICENSE_RESTRICTION'' ''FORBIDDEN_ACTION'' (JArr []) BLOCK_ACTION)
        (emptyInput ''AL'')) = Inr True
   \<and> evaluateRule asciiRuntime
       ((exampleRule ''r1'' ''AL'' ''LICENSE_RESTRICTION'' ''FORBIDDEN_ACTION'' (JArr []) BLOCK_ACTION)
          \<lparr>thresholdValue := JNum NaN\<rparr>) (emptyInput ''AL'')
     = evaluateRule asciiRuntime
         (exampleRule ''r1'' ''AL'' ''LICENSE_RESTRICTION'' ''FORBIDDEN_ACTION'' (JArr []) BLOCK_ACTION)
         (emptyInput ''AL'')"
  using forbidden_action_always_fires
      [of "exampleRule ''r1'' ''AL'' ''LICENSE_RESTRICTION'' ''FORBIDDEN_ACTION'' (JArr []) BLOCK_ACTION"
          asciiRuntime "emptyInput ''AL''" "JNum NaN"]
  by (simp add: exampleRule_def)

text \<open>
  \<^bold>\<open>C6\<close> (a \<^verbatim>\<open>FORBIDDEN_FEE_TYPE\<close> rule carrying a list of fee types fires if and only if
  the fee type of the input is present and in the list).
\<close>

theorem forbidden_fee_type_fires_iff:
  assumes "logicType rule = ''FORBIDDEN_FEE_TYPE''"
    and "thresholdValue rule = JArr (map (\<lambda>t. JStr (feeTypeName t)) forbidden)"
  shows "map_sum id violated (evaluateRule rt rule input) =
           Inr (case feeType input of None \<Rightarrow> False | Some t \<Rightarrow> t \<in> set forbidden)"
proof -
  have a: "JStr [] \<notin> (\<lambda>t. JStr (feeTypeName t)) ` set forbidden"
    using feeTypeName_nonempty by (metis imageE jsval.inject(3))
  have b: "JStr (feeTypeName t) \<in> (\<lambda>t. JStr (feeTypeName t)) ` set forbidden \<longleftrightarrow> t \<in> set forbidden"
    for t
    using feeTypeName_inj by auto
  show ?thesis
    using assms a b
    by (simp add: evaluateRule_def evaluateForbiddenFeeType_def Let_def split: option.split)
qed

text \<open>
  The list \<^verbatim>\<open>[CONTINGENCY, PERCENTAGE]\<close>: \<^verbatim>\<open>PERCENTAGE\<close> fires, \<^verbatim>\<open>HOURLY\<close> does not, an
  absent fee type does not.
\<close>

theorem forbidden_fee_type_fires_iff_witness:
  "map_sum id violated
     (evaluateRule asciiRuntime
        (exampleRule ''r1'' ''LA'' ''FEE_STRUCTURE'' ''FORBIDDEN_FEE_TYPE''
           (JArr [JStr ''CONTINGENCY'', JStr ''PERCENTAGE'']) BLOCK_ACTION)
        ((emptyInput ''LA'')\<lparr>feeType := Some PERCENTAGE\<rparr>)) = Inr True
   \<and> map_sum id violated
     (evaluateRule asciiRuntime
        (exampleRule ''r1'' ''LA'' ''FEE_STRUCTURE'' ''FORBIDDEN_FEE_TYPE''
           (JArr [JStr ''CONTINGENCY'', JStr ''PERCENTAGE'']) BLOCK_ACTION)
        ((emptyInput ''LA'')\<lparr>feeType := Some HOURLY\<rparr>)) = Inr False
   \<and> map_sum id violated
     (evaluateRule asciiRuntime
        (exampleRule ''r1'' ''LA'' ''FEE_STRUCTURE'' ''FORBIDDEN_FEE_TYPE''
           (JArr [JStr ''CONTINGENCY'', JStr ''PERCENTAGE'']) BLOCK_ACTION)
        (emptyInput ''LA'')) = Inr False"
  using forbidden_fee_type_fires_iff
      [of "exampleRule ''r1'' ''LA'' ''FEE_STRUCTURE'' ''FORBIDDEN_FEE_TYPE''
             (JArr [JStr ''CONTINGENCY'', JStr ''PERCENTAGE'']) BLOCK_ACTION"
          "[CONTINGENCY, PERCENTAGE]" asciiRuntime "(emptyInput ''LA'')\<lparr>feeType := Some PERCENTAGE\<rparr>"]
    forbidden_fee_type_fires_iff
      [of "exampleRule ''r1'' ''LA'' ''FEE_STRUCTURE'' ''FORBIDDEN_FEE_TYPE''
             (JArr [JStr ''CONTINGENCY'', JStr ''PERCENTAGE'']) BLOCK_ACTION"
          "[CONTINGENCY, PERCENTAGE]" asciiRuntime "(emptyInput ''LA'')\<lparr>feeType := Some HOURLY\<rparr>"]
    forbidden_fee_type_fires_iff
      [of "exampleRule ''r1'' ''LA'' ''FEE_STRUCTURE'' ''FORBIDDEN_FEE_TYPE''
             (JArr [JStr ''CONTINGENCY'', JStr ''PERCENTAGE'']) BLOCK_ACTION"
          "[CONTINGENCY, PERCENTAGE]" asciiRuntime "emptyInput ''LA''"]
  by (simp add: exampleRule_def emptyInput_def)

text \<open>
  \<^bold>\<open>C7\<close> as stated fails: a fee percentage of \<open>0\<close> is present and exceeds caps of
  \<open>-1\<close>, and the rule does not fire, because \<^verbatim>\<open>!feePercentage\<close> holds for \<open>0\<close>.
\<close>

theorem dynamic_cap_zero_fee_counterexample:
  "feePercentage ((emptyInput ''FL'')\<lparr>feePercentage := Some (Fin 0)\<rparr>) = Some (Fin 0)
   \<and> js_gt (Fin 0) (Fin (- 1))
   \<and> map_sum id violated
       (evaluateRule asciiRuntime
          (exampleRule ''r1'' ''FL'' ''FEE_CAP'' ''DYNAMIC_CAP'' (capsOf (Fin (- 1)) (Fin (- 1))) BLOCK_ACTION)
          ((emptyInput ''FL'')\<lparr>feePercentage := Some (Fin 0)\<rparr>)) = Inr False"
  by (simp add: handler_defs sample_defs js_gt_def)

text \<open>
  \<^bold>\<open>C7\<close>, amended. A \<^verbatim>\<open>DYNAMIC_CAP\<close> rule does not fire when the fee percentage is
  absent, \<open>0\<close> or NaN; otherwise it fires if and only if the fee percentage is greater
  than the emergency cap when \<open>isEmergency\<close> or \<open>isDeclaredDisaster\<close> holds, and than the
  standard cap when neither does.
\<close>

theorem dynamic_cap_fires_iff:
  assumes "logicType rule = ''DYNAMIC_CAP''"
    and "thresholdValue rule = JObj kvs"
    and "map_of kvs ''standard'' = Some (JNum standard)"
    and "map_of kvs ''emergency'' = Some (JNum emergency)"
  shows "map_sum id violated (evaluateRule rt rule input) =
           Inr (case feePercentage input of
                  None \<Rightarrow> False
                | Some fee \<Rightarrow>
                    truthy fee \<and>
                    js_gt fee (if isEmergency input = Some True \<or> isDeclaredDisaster input = Some True
                               then emergency else standard))"
  using assms
  by (simp add: evaluateRule_def evaluateDynamicCap_def notViolated_def Let_def flag_def
        toNumber_def getField_def bindE_def split: option.split)

text \<open>
  Caps of 20 and 10 percent with a fee of 15 percent: the rule fires in an emergency and
  does not fire otherwise.
\<close>

theorem dynamic_cap_fires_iff_witness:
  "map_sum id violated
     (evaluateRule asciiRuntime
        (exampleRule ''r1'' ''FL'' ''FEE_CAP'' ''DYNAMIC_CAP'' (capsOf (round64 0.20) (round64 0.10))
           BLOCK_ACTION)
        ((emptyInput ''FL'')\<lparr>feePercentage := Some (round64 0.15), isEmergency := Some True\<rparr>)) = Inr True
   \<and> map_sum id violated
     (evaluateRule asciiRuntime
        (exampleRule ''r1'' ''FL'' ''FEE_CAP'' ''DYNAMIC_CAP'' (capsOf (round64 0.20) (round64 0.10))
           BLOCK_ACTION)
        ((emptyInput ''FL'')\<lparr>feePercentage := Some (round64 0.15)\<rparr>)) = Inr False"
proof -
  let ?rule = "exampleRule ''r1'' ''FL'' ''FEE_CAP'' ''DYNAMIC_CAP'' (capsOf (round64 0.20) (round64 0.10))
                 BLOCK_ACTION"
  let ?kvs = "[(''standard'', JNum (round64 0.20)), (''emergency'', JNum (round64 0.10))]"
  have h1: "logicType ?rule = ''DYNAMIC_CAP''" by (simp add: exampleRule_def)
  have h2: "thresholdValue ?rule = JObj ?kvs" by (simp add: exampleRule_def capsOf_def)
  have h3: "map_of ?kvs ''standard'' = Some (JNum (round64 0.20))" by simp
  have h4: "map_of ?kvs ''emergency'' = Some (JNum (round64 0.10))" by simp
  show ?thesis
    using dynamic_cap_fires_iff [OF h1 h2 h3 h4, of asciiRuntime
        "(emptyInput ''FL'')\<lparr>feePercentage := Some (round64 0.15), isEmergency := Some True\<rparr>"]
      dynamic_cap_fires_iff [OF h1 h2 h3 h4, of asciiRuntime
        "(emptyInput ''FL'')\<lparr>feePercentage := Some (round64 0.15)\<rparr>"]
    by (simp add: emptyInput_def js_gt_def doubles)
qed




text \<open>
  \<^bold>\<open>C9\<close> (a rule whose logic type has no handler evaluates, without error, to not fired,
  and the loop leaves violations, warnings and blocked actions as they were).
\<close>

theorem unknown_logic_type_never_fires:
  assumes "logicType rule \<notin> set recognizedLogicTypes"
  shows "evaluateRule rt rule input = Inr \<lparr>violated = False, recommendedAction = None\<rparr>
         \<and> processRule rt rule input (vs, ws, bs) = Inr (vs, ws, bs)"
proof -
  have "evaluateRule rt rule input = Inr notViolated"
    using assms by (simp add: evaluateRule_def recognizedLogicTypes_def)
  then show ?thesis
    by (simp add: processRule_def notViolated_def)
qed

text \<open>\<^verbatim>\<open>FORBIDDEN_SERVICE\<close> is in the schema and has no handler.\<close>

theorem unknown_logic_type_never_fires_witness:
  "evaluateRule asciiRuntime
     (exampleRule ''r1'' ''NY'' ''UPL_PREVENTION'' ''FORBIDDEN_SERVICE'' (JArr [JStr ''LEGAL_ADVICE''])
        BLOCK_ACTION)
     ((emptyInput ''NY'')\<lparr>actionType := Some REPRESENTATION\<rparr>)
     = Inr \<lparr>violated = False, recommendedAction = None\<rparr>
   \<and> processRule asciiRuntime
       (exampleRule ''r1'' ''NY'' ''UPL_PREVENTION'' ''FORBIDDEN_SERVICE'' (JArr [JStr ''LEGAL_ADVICE''])
          BLOCK_ACTION)
       ((emptyInput ''NY'')\<lparr>actionType := Some REPRESENTATION\<rparr>) ([], [], [''FEE_CAP''])
     = Inr ([], [], [''FEE_CAP''])"
  using unknown_logic_type_never_fires
      [of "exampleRule ''r1'' ''NY'' ''UPL_PREVENTION'' ''FORBIDDEN_SERVICE'' (JArr [JStr ''LEGAL_ADVICE''])
             BLOCK_ACTION"
          asciiRuntime "(emptyInput ''NY'')\<lparr>actionType := Some REPRESENTATION\<rparr>" "[]" "[]" "[''FEE_CAP'']"]
  by (simp add: exampleRule_def recognizedLogicTypes_def)

text \<open>
  \<^bold>\<open>C10\<close> (the sliding-scale branch of \<^verbatim>\<open>getMaximumFee\<close> divides by the claim amount
  unguarded). The percentage returned is the tiered maximum divided by the claim amount.
  For a claim amount of \<open>0\<close> it is never a finite number, and it is NaN (\<^verbatim>\<open>0 / 0\<close>) when
  the scale is finite with a tier limit that is not negative; for a finite non-zero claim
  amount and a finite tiered maximum it is the quotient, rounded to the nearest double,
  and that is a finite number when the quotient is below \<open>2 ^ 1023\<close> in magnitude.
\<close>

theorem sliding_scale_percentage_division:
  assumes "findFeeRule rt catalog code = Some feeRule"
    and "logicType feeRule = ''SLIDING_SCALE''"
    and "thresholdValue feeRule = JObj kvs"
    and "map_of kvs ''tier1_limit'' = Some (JNum l)"
    and "map_of kvs ''tier1_percent'' = Some (JNum p1)"
    and "map_of kvs ''tier2_percent'' = Some (JNum p2)"
  shows "map_sum id maxPercentage (getMaximumFee rt catalog code claim em) =
           Inr (JNum (js_div (tieredMaximum claim l p1 p2) claim))
         \<and> (claim = Fin 0 \<longrightarrow>
              (\<exists>n. map_sum id maxPercentage (getMaximumFee rt catalog code claim em) = Inr (JNum n)
                 \<and> \<not> isFinite n))
         \<and> (claim = Fin 0 \<and> l = Fin L \<and> 0 \<le> L \<and> p1 = Fin P1 \<and> p2 = Fin P2 \<longrightarrow>
              map_sum id maxPercentage (getMaximumFee rt catalog code claim em) = Inr (JNum NaN))
         \<and> (claim = Fin c \<and> c \<noteq> 0 \<and> tieredMaximum claim l p1 p2 = Fin t \<longrightarrow>
              map_sum id maxPercentage (getMaximumFee rt catalog code claim em) =
                Inr (JNum (round64 (t / c)))
              \<and> (\<bar>t / c\<bar> < 2 ^ 1023 \<longrightarrow> (\<exists>y. round64 (t / c) = Fin y)))"
proof -
  have main: "map_sum id maxPercentage (getMaximumFee rt catalog code claim em) =
                Inr (JNum (js_div (tieredMaximum claim l p1 p2) claim))"
    using assms
    by (simp add: getMaximumFee_def Let_def tieredMaximum_def toNumber_def getField_def bindE_def)
  have zero: "claim = Fin 0 \<longrightarrow>
               (\<exists>n. map_sum id maxPercentage (getMaximumFee rt catalog code claim em) = Inr (JNum n)
                  \<and> \<not> isFinite n)"
    unfolding main using js_div_zero_not_finite by simp
  have nan: "claim = Fin 0 \<and> l = Fin L \<and> 0 \<le> L \<and> p1 = Fin P1 \<and> p2 = Fin P2 \<longrightarrow>
               map_sum id maxPercentage (getMaximumFee rt catalog code claim em) = Inr (JNum NaN)"
    unfolding main
    by (auto simp add: tieredMaximum_def Math_min_def js_sub_def round64_zero round64_nonpos
          signedInfinity_def)
  have quotient: "claim = Fin c \<and> c \<noteq> 0 \<and> tieredMaximum claim l p1 p2 = Fin t \<longrightarrow>
               map_sum id maxPercentage (getMaximumFee rt catalog code claim em) =
                 Inr (JNum (round64 (t / c)))
               \<and> (\<bar>t / c\<bar> < 2 ^ 1023 \<longrightarrow> (\<exists>y. round64 (t / c) = Fin y))"
    unfolding main using round64_finite [of "t / c"] by auto
  from main zero nan quotient show ?thesis
    by (intro conjI)
qed

text \<open>The scale \<^verbatim>\<open>{25000, 0.025, 0.12}\<close> on a claim of \<open>0\<close> and on a claim of \<open>100000\<close>.\<close>

theorem sliding_scale_percentage_division_witness:
  "map_sum id maxPercentage
     (getMaximumFee asciiRuntime
        [exampleRule ''r1'' ''DE'' ''FEE_CAP'' ''SLIDING_SCALE''
           (scaleOf (Fin 25000) (round64 0.025) (round64 0.12)) BLOCK_ACTION]
        ''DE'' (Fin 0) False) = Inr (JNum NaN)
   \<and> map_sum id maxPercentage
     (getMaximumFee asciiRuntime
        [exampleRule ''r1'' ''DE'' ''FEE_CAP'' ''SLIDING_SCALE''
           (scaleOf (Fin 25000) (round64 0.025) (round64 0.12)) BLOCK_ACTION]
        ''DE'' (Fin 100000) False) = Inr (JNum (Fin (1733885856537641 / 18014398509481984)))
   \<and> round64 0.09625 = Fin (1733885856537641 / 18014398509481984)"
proof -
  let ?rule = "exampleRule ''r1'' ''DE'' ''FEE_CAP'' ''SLIDING_SCALE''
                 (scaleOf (Fin 25000) (round64 0.025) (round64 0.12)) BLOCK_ACTION"
  let ?kvs = "[(''tier1_limit'', JNum (Fin 25000)), (''tier1_percent'', JNum (round64 0.025)),
               (''tier2_percent'', JNum (round64 0.12))]"
  have found: "findFeeRule asciiRuntime [?rule] ''DE'' = Some ?rule"
    by (simp add: findFeeRule_def sample_defs)
  have h1: "logicType ?rule = ''SLIDING_SCALE''" by (simp add: exampleRule_def)
  have h2: "thresholdValue ?rule = JObj ?kvs" by (simp add: exampleRule_def scaleOf_def)
  have h3: "map_of ?kvs ''tier1_limit'' = Some (JNum (Fin 25000))" by simp
  have h4: "map_of ?kvs ''tier1_percent'' = Some (JNum (round64 0.025))" by simp
  have h5: "map_of ?kvs ''tier2_percent'' = Some (JNum (round64 0.12))" by simp
  have p1: "round64 0.025 = Fin (3602879701896397 / 144115188075855872)"
    by (rule double_0_025)
  have p2: "round64 0.12 = Fin (1080863910568919 / 9007199254740992)"
    by (rule double_0_12)
  have maximum: "tieredMaximum (Fin 100000) (Fin 25000) (round64 0.025) (round64 0.12) = Fin 9625"
    by (simp add: tieredMaximum_def Math_min_def Math_max_def js_sub_def doubles round64_eval)
  have quotient: "round64 (9625 / 100000) = Fin (1733885856537641 / 18014398509481984)"
    by (simp add: round64_eval)
  have literal: "round64 0.09625 = Fin (1733885856537641 / 18014398509481984)"
    by (simp add: round64_eval)
  note inst = sliding_scale_percentage_division [OF found h1 h2 h3 h4 h5]
  have zero: "map_sum id maxPercentage (getMaximumFee asciiRuntime [?rule] ''DE'' (Fin 0) False)
                = Inr (JNum NaN)"
    using inst [of "Fin 0" False 25000
                   "3602879701896397 / 144115188075855872" "1080863910568919 / 9007199254740992" 0 0,
                   THEN conjunct2, THEN conjunct2, THEN conjunct1]
      p1 p2
    by simp
  have hundred: "map_sum id maxPercentage
                   (getMaximumFee asciiRuntime [?rule] ''DE'' (Fin 100000) False)
                = Inr (JNum (Fin (1733885856537641 / 18014398509481984)))"
    using inst [of "Fin 100000" False 0 0 0 100000 9625,
                   THEN conjunct2, THEN conjunct2, THEN conjunct2]
      maximum quotient
    by simp
  from zero hundred literal show ?thesis by (intro conjI)
qed

end
